theory Spec2Isabelle
  imports Main "HOL-Library.Word"
begin

section \<open>JavaScript values\<close>

text \<open>
  The analyzer's replies are typed \<open>any\<close> in the handlers: whatever \<open>JSON.parse\<close> can
  return. A parsed object is the list of its properties, each name once. A string is the
  sequence of the bytes of its UTF-8 encoding. The numbers are the integers from \<open>-2^53\<close>
  to \<open>2^53 - 1\<close>, which JavaScript's numbers hold exactly and print in decimal:
  \<open>JNum n\<close> is the number \<open>sint n\<close>. Fractions, larger numbers and strings with an
  unpaired surrogate are left out. \<open>undefined\<close> is not a JSON value; a JavaScript value
  that may be \<open>undefined\<close> is a \<open>json option\<close> with \<open>None\<close> for \<open>undefined\<close>.
\<close>

datatype json =
    JNull
  | JBool bool
  | JNum "54 word"
  | JStr string
  | JArr "json list"
  | JObj "(string \<times> json) list"

text \<open>Truthiness, as \<open>if (v)\<close>, \<open>!v\<close>, \<open>v || w\<close> and \<open>v ? a : b\<close> test it.\<close>

fun truthy :: "json \<Rightarrow> bool" where
  "truthy JNull = False"
| "truthy (JBool b) = b"
| "truthy (JNum n) = (n \<noteq> 0)"
| "truthy (JStr s) = (s \<noteq> [])"
| "truthy (JArr xs) = True"
| "truthy (JObj kvs) = True"

fun js_truthy :: "json option \<Rightarrow> bool" where
  "js_truthy None = False"
| "js_truthy (Some v) = truthy v"

text \<open>\<open>!v\<close> for an optional string: \<open>null\<close>, \<open>undefined\<close> and \<open>""\<close> are falsy.\<close>

fun str_falsy :: "string option \<Rightarrow> bool" where
  "str_falsy None = True"
| "str_falsy (Some s) = (s = [])"

text \<open>\<open>v == null\<close>, the test behind \<open>??\<close> and \<open>?.\<close>: \<open>null\<close> or \<open>undefined\<close>.\<close>

fun nullish :: "json option \<Rightarrow> bool" where
  "nullish None = True"
| "nullish (Some JNull) = True"
| "nullish (Some v) = False"

text \<open>
  \<open>v.f\<close> for a value \<open>v\<close> that is not \<open>null\<close>: the property of an object, and
  \<open>undefined\<close> on a boolean, number, string or array (none of the names read here is a
  method or a property of those). On \<open>null\<close> the access throws; the callers test for it.
\<close>

fun get_prop :: "string \<Rightarrow> json \<Rightarrow> json option" where
  "get_prop f (JObj kvs) = map_of kvs f"
| "get_prop f v = None"

text \<open>\<open>v?.f\<close>, for a value that may be \<open>null\<close>.\<close>

fun opt_prop :: "string \<Rightarrow> json \<Rightarrow> json option" where
  "opt_prop f JNull = None"
| "opt_prop f v = get_prop f v"

definition digit_char :: "nat \<Rightarrow> char" where
  "digit_char n = ''0123456789'' ! (n mod 10)"

function string_of_nat :: "nat \<Rightarrow> string" where
  "string_of_nat n =
     (if n < 10 then [digit_char n] else string_of_nat (n div 10) @ [digit_char n])"
  by pat_completeness auto
termination
  by (relation "measure id") auto

declare string_of_nat.simps [simp del]

definition string_of_int :: "int \<Rightarrow> string" where
  "string_of_int i = (if i < 0 then CHR ''-'' # string_of_nat (nat (- i)) else string_of_nat (nat i))"

fun join_comma :: "string list \<Rightarrow> string" where
  "join_comma [] = []"
| "join_comma [s] = s"
| "join_comma (s # t # ts) = s @ '','' @ join_comma (t # ts)"

text \<open>
  The string a template literal \<open>`${v}`\<close> puts in for \<open>v\<close>. An array joins its
  elements with commas, \<open>null\<close> elements as the empty string.
\<close>

fun to_string :: "json \<Rightarrow> string" where
  "to_string JNull = ''null''"
| "to_string (JBool b) = (if b then ''true'' else ''false'')"
| "to_string (JNum n) = string_of_int (sint n)"
| "to_string (JStr s) = s"
| "to_string (JArr xs) = join_comma (map (\<lambda>x. if x = JNull then [] else to_string x) xs)"
| "to_string (JObj kvs) = ''[object Object]''"

fun js_to_string :: "json option \<Rightarrow> string" where
  "js_to_string None = ''undefined''"
| "js_to_string (Some v) = to_string v"

fun template_str :: "string option \<Rightarrow> string" where
  "template_str None = ''null''"
| "template_str (Some s) = s"

text \<open>
  \<open>s.startsWith(p)\<close> and \<open>s.includes(p)\<close>. On the bytes of UTF-8 they agree with
  JavaScript's tests on the characters.
\<close>

definition startsWith :: "string \<Rightarrow> string \<Rightarrow> bool" where
  "startsWith s p = (take (length p) s = p)"

fun js_includes :: "string \<Rightarrow> string \<Rightarrow> bool" where
  "js_includes [] p = (p = [])"
| "js_includes (c # cs) p = (startsWith (c # cs) p \<or> js_includes cs p)"

text \<open>
  The characters that \<open>s.trim()\<close> strips, in UTF-8: the white space and the line
  terminators of JavaScript, which are U+0009 to U+000D, U+0020, U+00A0, U+1680, U+2000
  to U+200A, U+2028, U+2029, U+202F, U+205F, U+3000 and U+FEFF.
\<close>

definition white_space :: "string list" where
  "white_space =
     [[CHR 0x09], [CHR 0x0A], [CHR 0x0B], [CHR 0x0C], [CHR 0x0D], [CHR 0x20],
      [CHR 0xC2, CHR 0xA0],
      [CHR 0xE1, CHR 0x9A, CHR 0x80],
      [CHR 0xE2, CHR 0x80, CHR 0x80], [CHR 0xE2, CHR 0x80, CHR 0x81],
      [CHR 0xE2, CHR 0x80, CHR 0x82], [CHR 0xE2, CHR 0x80, CHR 0x83],
      [CHR 0xE2, CHR 0x80, CHR 0x84], [CHR 0xE2, CHR 0x80, CHR 0x85],
      [CHR 0xE2, CHR 0x80, CHR 0x86], [CHR 0xE2, CHR 0x80, CHR 0x87],
      [CHR 0xE2, CHR 0x80, CHR 0x88], [CHR 0xE2, CHR 0x80, CHR 0x89],
      [CHR 0xE2, CHR 0x80, CHR 0x8A],
      [CHR 0xE2, CHR 0x80, CHR 0xA8], [CHR 0xE2, CHR 0x80, CHR 0xA9],
      [CHR 0xE2, CHR 0x80, CHR 0xAF],
      [CHR 0xE2, CHR 0x81, CHR 0x9F],
      [CHR 0xE3, CHR 0x80, CHR 0x80],
      [CHR 0xEF, CHR 0xBB, CHR 0xBF]]"

text \<open>The length of the one of the strings \<open>ws\<close> that \<open>s\<close> starts with, 0 when none.\<close>

definition start_length :: "string list \<Rightarrow> string \<Rightarrow> nat" where
  "start_length ws s = (case find (startsWith s) ws of None \<Rightarrow> 0 | Some w \<Rightarrow> length w)"

function strip_start :: "string list \<Rightarrow> string \<Rightarrow> string" where
  "strip_start ws s =
     (if start_length ws s = 0 then s else strip_start ws (drop (start_length ws s) s))"
  by pat_completeness auto
termination
proof (relation "measure (\<lambda>(ws, s). length s)")
  show "wf (measure (\<lambda>(ws, s). length s))" by simp
next
  fix ws :: "string list" and s :: string
  assume n: "start_length ws s \<noteq> 0"
  then obtain w where "find (startsWith s) ws = Some w" and l: "length w = start_length ws s"
    by (auto simp: start_length_def split: option.splits)
  then have "startsWith s w" by (auto simp: find_Some_iff)
  then have "take (length w) s = w" by (simp add: startsWith_def)
  then have "length (take (length w) s) = length w" by simp
  then have "length w \<le> length s" by (simp add: min_def split: if_splits)
  with n l show "((ws, drop (start_length ws s) s), (ws, s)) \<in> measure (\<lambda>(ws, s). length s)"
    by simp
qed

declare strip_start.simps [simp del]

text \<open>\<open>s.trim()\<close>: the white space is stripped at the start and at the end.\<close>

definition trim :: "string \<Rightarrow> string" where
  "trim s = rev (strip_start (map rev white_space) (rev (strip_start white_space s)))"

text \<open>
  U+0000 in a string, and in a string or a key anywhere in a document: the text columns
  and the JSONB column of the store refuse it.
\<close>

definition has_nul :: "string \<Rightarrow> bool" where
  "has_nul s = (CHR 0x00 \<in> set s)"

fun json_nul :: "json \<Rightarrow> bool" where
  "json_nul (JStr s) = has_nul s"
| "json_nul (JArr xs) = list_ex json_nul xs"
| "json_nul (JObj kvs) = list_ex (\<lambda>kv. has_nul (fst kv) \<or> json_nul (snd kv)) kvs"
| "json_nul v = False"

section \<open>The data model\<close>

text \<open>
  The \<open>Analysis\<close> table of the migration: the text columns are strings, nullable where
  the column is, \<open>progress\<close> is a nullable integer, \<open>result\<close> a nullable JSONB document,
  the timestamps are points of a clock.
\<close>

record analysis =
  analysis_id :: string
  workspaceId :: string
  external_workspace_id :: "string option"
  status :: string
  progress :: "int option"
  message :: "string option"
  current_step :: "string option"
  status_url :: "string option"
  result_url :: "string option"
  result :: "json option"
  startedAt :: nat
  completedAt :: "nat option"
  updatedAt :: nat

record workspace =
  workspace_id :: string
  name :: string
  github_repository :: string
  email :: string
  createdAt :: nat
  ws_updatedAt :: nat

text \<open>
  The store: workspaces by \<open>workspace_id\<close>, analyses by \<open>workspaceId\<close> (the unique index
  of the migration, and the key of every \<open>findUnique\<close> and \<open>update\<close> of the handlers).
\<close>

record store =
  workspaces :: "string \<rightharpoonup> workspace"
  analyses :: "string \<rightharpoonup> analysis"

definition empty_store :: store where
  "empty_store = \<lparr>workspaces = Map.empty, analyses = Map.empty\<rparr>"

text \<open>
  The writes the handlers send to the store. \<open>UpdateStatus\<close> is the update of
  \<open>status\<close>, \<open>progress\<close>, \<open>message\<close> and \<open>current_step\<close>; \<open>UpdateResult\<close> is the
  update of \<open>result\<close>, \<open>completedAt\<close> and \<open>status\<close>. Each carries the clock's reading,
  which the store puts into \<open>updatedAt\<close>.
\<close>

datatype db_write =
    CreateWorkspace workspace
  | CreateAnalysis analysis
  | UpdateStatus string string "int option" "string option" "string option" nat
  | UpdateResult string json nat

text \<open>
  What the columns take. A text column refuses a string with U+0000, the integer column
  a number outside 32 bits, the JSONB column a document with U+0000 in a string or a
  key. The identifiers are the store's own and always fit.
\<close>

definition int32 :: "int \<Rightarrow> bool" where
  "int32 n = (- 2147483648 \<le> n \<and> n \<le> 2147483647)"

fun text_fits :: "string option \<Rightarrow> bool" where
  "text_fits None = True"
| "text_fits (Some t) = (\<not> has_nul t)"

fun int_fits :: "int option \<Rightarrow> bool" where
  "int_fits None = True"
| "int_fits (Some n) = int32 n"

fun json_fits :: "json option \<Rightarrow> bool" where
  "json_fits None = True"
| "json_fits (Some v) = (\<not> json_nul v)"

fun fits :: "db_write \<Rightarrow> bool" where
  "fits (CreateWorkspace w) =
     (\<not> has_nul (name w) \<and> \<not> has_nul (github_repository w) \<and> \<not> has_nul (email w))"
| "fits (CreateAnalysis a) =
     (text_fits (external_workspace_id a) \<and> \<not> has_nul (status a) \<and> int_fits (progress a) \<and>
      text_fits (message a) \<and> text_fits (current_step a) \<and> text_fits (status_url a) \<and>
      text_fits (result_url a) \<and> json_fits (result a))"
| "fits (UpdateStatus wid st pr msg step now) =
     (\<not> has_nul st \<and> int_fits pr \<and> text_fits msg \<and> text_fits step)"
| "fits (UpdateResult wid r now) = (\<not> json_nul r)"

text \<open>
  A write is refused (the client throws) when a value does not fit its column, when a
  unique key is taken (the primary key of a workspace, the unique index on
  \<open>workspaceId\<close> of the migration), when the analysis's workspace does not exist (the
  foreign key of the migration) and when the record to update does not exist. The store
  is taken to be up: no write fails for another reason. A result document \<open>null\<close> is
  taken like any other and stored as the column's \<open>null\<close>: the two nulls of a JSON
  column read back alike and are one here.
\<close>

fun apply_write :: "db_write \<Rightarrow> store \<Rightarrow> store option" where
  "apply_write (CreateWorkspace w) s =
     (if \<not> fits (CreateWorkspace w) then None
      else if workspaces s (workspace_id w) \<noteq> None then None
      else Some (s\<lparr>workspaces := (workspaces s)(workspace_id w \<mapsto> w)\<rparr>))"
| "apply_write (CreateAnalysis a) s =
     (if \<not> fits (CreateAnalysis a) then None
      else if analyses s (workspaceId a) \<noteq> None then None
      else if workspaces s (workspaceId a) = None then None
      else Some (s\<lparr>analyses := (analyses s)(workspaceId a \<mapsto> a)\<rparr>))"
| "apply_write (UpdateStatus wid st pr msg step now) s =
     (if \<not> fits (UpdateStatus wid st pr msg step now) then None
      else case analyses s wid of
        None \<Rightarrow> None
      | Some a \<Rightarrow>
          Some (s\<lparr>analyses := (analyses s)(wid \<mapsto>
            a\<lparr>status := st, progress := pr, message := msg, current_step := step,
              updatedAt := now\<rparr>)\<rparr>))"
| "apply_write (UpdateResult wid r now) s =
     (if \<not> fits (UpdateResult wid r now) then None
      else case analyses s wid of
        None \<Rightarrow> None
      | Some a \<Rightarrow>
          Some (s\<lparr>analyses := (analyses s)(wid \<mapsto>
            a\<lparr>result := (if r = JNull then None else Some r), completedAt := Some now,
              status := ''completed'', updatedAt := now\<rparr>)\<rparr>))"

section \<open>Requests, fetches and replies\<close>

text \<open>\<open>req.query.id\<close>: absent, one string, or a list of strings.\<close>

datatype query_id = QAbsent | QStr string | QList "string list"

text \<open>\<open>!id || typeof id !== 'string'\<close> lets only a non-empty string through.\<close>

fun valid_id :: "query_id \<Rightarrow> string option" where
  "valid_id (QStr s) = (if s = [] then None else Some s)"
| "valid_id q = None"

text \<open>
  The session: the e-mail of the signed-in user, \<open>None\<close> when there is no session or no
  e-mail in it. An empty e-mail is falsy and refused as well.
\<close>

fun session_email :: "string option \<Rightarrow> string option" where
  "session_email None = None"
| "session_email (Some e) = (if e = [] then None else Some e)"

text \<open>
  What a \<open>fetch\<close> gives: it throws, or it returns a response with a status code and a
  body; the body is \<open>None\<close> when it is not JSON (\<open>json()\<close> throws then).
\<close>

datatype fetch_result = NetworkError | Response nat "json option"

definition ok :: "nat \<Rightarrow> bool" where
  "ok c = (200 \<le> c \<and> c \<le> 299)"

text \<open>
  The JSON bodies the handlers send. \<open>Status st an\<close> is \<open>{success, status, analysis}\<close>,
  with \<open>an = None\<close> when no analysis is sent. \<open>Workspace\<close> is the reply of the read of
  a workspace, \<open>Created\<close> the reply of its creation, each with the summary of the
  analysis when there is one.
\<close>

record analysis_summary =
  sum_id :: string
  sum_status :: string
  sum_progress :: "int option"
  sum_message :: "string option"
  sum_current_step :: "string option"
  sum_status_url :: "string option"
  sum_result_url :: "string option"
  sum_startedAt :: "nat option"
  sum_completedAt :: "nat option"
  sum_hasResult :: bool
  sum_result :: "json option"

record created_summary =
  new_id :: string
  new_status :: string
  new_status_url :: "string option"
  new_result_url :: "string option"
  new_hasResult :: bool

datatype reply =
    Error string
  | Status "json option" "analysis option"
  | Workspace workspace "analysis_summary option"
  | Created workspace "created_summary option"

text \<open>
  What one run of a handler does: the response, the store it leaves, the URLs it fetched
  and the writes the store accepted, in order.
\<close>

record outcome =
  http_code :: nat
  body :: reply
  db :: store
  fetched :: "string list"
  writes :: "db_write list"

definition respond :: "nat \<Rightarrow> reply \<Rightarrow> store \<Rightarrow> string list \<Rightarrow> db_write list \<Rightarrow> outcome" where
  "respond c r s us ws = \<lparr>http_code = c, body = r, db = s, fetched = us, writes = ws\<rparr>"

text \<open>The \<open>catch\<close> of a handler: whatever was thrown, the reply is a 500.\<close>

definition internal_error :: "store \<Rightarrow> string list \<Rightarrow> db_write list \<Rightarrow> outcome" where
  "internal_error s us ws = respond 500 (Error ''Internal server error'') s us ws"

section \<open>GET /api/workspaces/[id]/status\<close>

text \<open>
  The values the handler hands to the update of lines 40 to 48, as the store's client
  reads them. For a column it takes a value of the column's type (\<open>null\<close> too where the
  column is nullable), or an object with exactly one property that names an operation:
  \<open>set\<close> for every column, and \<open>increment\<close>, \<open>decrement\<close>, \<open>multiply\<close> and \<open>divide\<close> for
  the integer column, with an operand of 32 bits. The arithmetic is the store's, on the
  stored value: \<open>null\<close> stays \<open>null\<close>, the division truncates, a division by zero
  fails. Anything else the client refuses: it throws before anything is written, which
  is \<open>None\<close> here.
\<close>

fun single_prop :: "json \<Rightarrow> (string \<times> json) option" where
  "single_prop (JObj [kv]) = Some kv"
| "single_prop v = None"

text \<open>A value for a text column that is not nullable.\<close>

fun plain_text :: "json \<Rightarrow> string option" where
  "plain_text (JStr t) = Some t"
| "plain_text v = None"

definition given_text :: "json \<Rightarrow> string option" where
  "given_text v =
     (case v of
        JStr t \<Rightarrow> Some t
      | _ \<Rightarrow>
          (case single_prop v of
             None \<Rightarrow> None
           | Some kv \<Rightarrow> if fst kv = ''set'' then plain_text (snd kv) else None))"

text \<open>A value for a nullable text column.\<close>

fun nullable_text :: "json \<Rightarrow> string option option" where
  "nullable_text JNull = Some None"
| "nullable_text (JStr t) = Some (Some t)"
| "nullable_text v = None"

definition given_nullable_text :: "json \<Rightarrow> string option option" where
  "given_nullable_text v =
     (case v of
        JNull \<Rightarrow> Some None
      | JStr t \<Rightarrow> Some (Some t)
      | _ \<Rightarrow>
          (case single_prop v of
             None \<Rightarrow> None
           | Some kv \<Rightarrow> if fst kv = ''set'' then nullable_text (snd kv) else None))"

text \<open>An integer of 32 bits, and the division of the store, which truncates.\<close>

fun plain_int :: "json \<Rightarrow> int option" where
  "plain_int (JNum n) = (if int32 (sint n) then Some (sint n) else None)"
| "plain_int v = None"

definition sql_div :: "int \<Rightarrow> int \<Rightarrow> int" where
  "sql_div p n = (if (p < 0) = (n < 0) then \<bar>p\<bar> div \<bar>n\<bar> else - (\<bar>p\<bar> div \<bar>n\<bar>))"

text \<open>The result of an operation of the store on a stored integer, when it fits.\<close>

definition arith :: "int option \<Rightarrow> (int \<Rightarrow> int) \<Rightarrow> int option option" where
  "arith stored f =
     (case stored of
        None \<Rightarrow> Some None
      | Some p \<Rightarrow> if int32 (f p) then Some (Some (f p)) else None)"

text \<open>A value for the nullable integer column, on the stored value \<open>stored\<close>.\<close>

definition given_nullable_int :: "int option \<Rightarrow> json \<Rightarrow> int option option" where
  "given_nullable_int stored v =
     (case v of
        JNull \<Rightarrow> Some None
      | JNum n \<Rightarrow> map_option Some (plain_int v)
      | _ \<Rightarrow>
          (case single_prop v of
             None \<Rightarrow> None
           | Some kv \<Rightarrow>
               if fst kv = ''set''
               then (if snd kv = JNull then Some None else map_option Some (plain_int (snd kv)))
               else
                 (case plain_int (snd kv) of
                    None \<Rightarrow> None
                  | Some n \<Rightarrow>
                      if fst kv = ''increment'' then arith stored (\<lambda>p. p + n)
                      else if fst kv = ''decrement'' then arith stored (\<lambda>p. p - n)
                      else if fst kv = ''multiply'' then arith stored (\<lambda>p. p * n)
                      else if fst kv = ''divide''
                      then (if stored = None then Some None
                            else if n = 0 then None else arith stored (\<lambda>p. sql_div p n))
                      else None)))"

text \<open>\<open>statusData.status || analysis.status\<close>\<close>

definition merge_status :: "analysis \<Rightarrow> json \<Rightarrow> string option" where
  "merge_status a d =
     (case get_prop ''status'' d of
        None \<Rightarrow> Some (status a)
      | Some v \<Rightarrow> if truthy v then given_text v else Some (status a))"

text \<open>\<open>statusData.progress ?? analysis.progress\<close>\<close>

definition merge_progress :: "analysis \<Rightarrow> json \<Rightarrow> int option option" where
  "merge_progress a d =
     (case get_prop ''progress'' d of
        None \<Rightarrow> Some (progress a)
      | Some v \<Rightarrow> if v = JNull then Some (progress a) else given_nullable_int (progress a) v)"

text \<open>\<open>statusData.message ?? analysis.message\<close>, and the same for \<open>current_step\<close>\<close>

definition merge_text :: "string option \<Rightarrow> json option \<Rightarrow> string option option" where
  "merge_text stored v =
     (case v of
        None \<Rightarrow> Some stored
      | Some x \<Rightarrow> if x = JNull then Some stored else given_nullable_text x)"

text \<open>
  The update of lines 40 to 48, when the client takes its four values and the columns
  take what they come to.
\<close>

definition merge_update :: "string \<Rightarrow> analysis \<Rightarrow> json \<Rightarrow> nat \<Rightarrow> db_write option" where
  "merge_update wid a d now =
     (case merge_status a d of
        None \<Rightarrow> None
      | Some st \<Rightarrow>
     (case merge_progress a d of
        None \<Rightarrow> None
      | Some pr \<Rightarrow>
     (case merge_text (message a) (get_prop ''message'' d) of
        None \<Rightarrow> None
      | Some msg \<Rightarrow>
     (case merge_text (current_step a) (get_prop ''current_step'' d) of
        None \<Rightarrow> None
      | Some step \<Rightarrow>
          if fits (UpdateStatus wid st pr msg step now)
          then Some (UpdateStatus wid st pr msg step now) else None))))"

definition analyzer_base :: string where
  "analyzer_base = ''http://0.0.0.0:8000''"

text \<open>Line 30: the stored \<open>status_url\<close>, or the template on the external id.\<close>

definition status_url_of :: "analysis \<Rightarrow> string" where
  "status_url_of a =
     (case status_url a of
        Some u \<Rightarrow> u
      | None \<Rightarrow> analyzer_base @ ''/api/status/'' @ template_str (external_workspace_id a))"

text \<open>
  Lines 52 and 53: the stored \<open>result_url\<close>, or the template on the stored external id,
  or on the \<open>workspace_id\<close> of the status reply when none is stored.
\<close>

definition result_url_of :: "analysis \<Rightarrow> json \<Rightarrow> string" where
  "result_url_of a d =
     (case result_url a of
        Some u \<Rightarrow> u
      | None \<Rightarrow>
          analyzer_base @ ''/api/result/'' @
            js_to_string (case external_workspace_id a of
                            Some e \<Rightarrow> Some (JStr e)
                          | None \<Rightarrow> get_prop ''workspace_id'' d))"

text \<open>
  Lines 51 to 71, entered when the status reply says \<open>completed\<close>: \<open>s1\<close> is the store
  after the merge \<open>w1\<close>, \<open>rresp\<close> what the fetch of the result gives.
\<close>

definition complete_analysis :: "string \<Rightarrow> analysis \<Rightarrow> json \<Rightarrow> string \<Rightarrow> db_write \<Rightarrow> fetch_result \<Rightarrow> nat \<Rightarrow> store \<Rightarrow> outcome" where
  "complete_analysis wid a d statusUrl w1 rresp now s1 =
     (let us = [statusUrl, result_url_of a d] in
      case rresp of
        NetworkError \<Rightarrow> internal_error s1 us [w1]
      | Response c b \<Rightarrow>
          if ok c then
            (case b of
               None \<Rightarrow> internal_error s1 us [w1]
             | Some resultData \<Rightarrow>
                 (case apply_write (UpdateResult wid resultData now) s1 of
                    None \<Rightarrow> internal_error s1 us [w1]
                  | Some s2 \<Rightarrow>
                      respond 200 (Status (Some (JStr ''completed'')) (analyses s2 wid)) s2 us
                        [w1, UpdateResult wid resultData now]))
          else respond 502 (Error ''Failed to fetch result from analyzer'') s1 us [w1])"

text \<open>
  Lines 29 to 74: \<open>a\<close> is the analysis found for \<open>wid\<close>, \<open>sresp\<close> what the fetch of the
  status gives.
\<close>

definition poll_analyzer :: "string \<Rightarrow> analysis \<Rightarrow> fetch_result \<Rightarrow> fetch_result \<Rightarrow> nat \<Rightarrow> store \<Rightarrow> outcome" where
  "poll_analyzer wid a sresp rresp now s =
     (let statusUrl = status_url_of a in
      case sresp of
        NetworkError \<Rightarrow> internal_error s [statusUrl] []
      | Response c b \<Rightarrow>
          if \<not> ok c then respond 502 (Error ''Failed to fetch status from analyzer'') s [statusUrl] []
          else
            (case b of
               None \<Rightarrow> internal_error s [statusUrl] []
             | Some statusData \<Rightarrow>
                 if statusData = JNull then internal_error s [statusUrl] []
                 else
                   (case merge_update wid a statusData now of
                      None \<Rightarrow> internal_error s [statusUrl] []
                    | Some w1 \<Rightarrow>
                        (case apply_write w1 s of
                           None \<Rightarrow> internal_error s [statusUrl] []
                         | Some s1 \<Rightarrow>
                             if get_prop ''status'' statusData = Some (JStr ''completed'')
                             then complete_analysis wid a statusData statusUrl w1 rresp now s1
                             else respond 200 (Status (get_prop ''status'' statusData) (analyses s1 wid))
                                    s1 [statusUrl] [w1]))))"

text \<open>
  The handler: \<open>qid\<close> is \<open>req.query.id\<close>, \<open>session\<close> the e-mail of the session, \<open>sresp\<close>
  and \<open>rresp\<close> what the analyzer answers to the fetch of the status and of the result
  (when the handler gets that far), \<open>now\<close> the clock.
\<close>

definition status_handler :: "query_id \<Rightarrow> string option \<Rightarrow> fetch_result \<Rightarrow> fetch_result \<Rightarrow> nat \<Rightarrow> store \<Rightarrow> outcome" where
  "status_handler qid session sresp rresp now s =
     (case valid_id qid of
        None \<Rightarrow> respond 400 (Error ''Invalid id'') s [] []
      | Some wid \<Rightarrow>
     (case session_email session of
        None \<Rightarrow> respond 401 (Error ''Unauthorized'') s [] []
      | Some caller \<Rightarrow>
     (case analyses s wid of
        None \<Rightarrow> respond 404 (Error ''No analysis record'') s [] []
      | Some a \<Rightarrow>
          if js_truthy (result a)
          then respond 200 (Status (Some (JStr ''completed'')) (Some a)) s [] []
          else if str_falsy (status_url a) \<and> str_falsy (external_workspace_id a)
          then respond 200
                 (Status (Some (JStr (if status a \<noteq> [] then status a else ''pending''))) None)
                 s [] []
          else poll_analyzer wid a sresp rresp now s)))"

section \<open>GET /api/workspaces/[id]\<close>

definition summary :: "analysis \<Rightarrow> analysis_summary" where
  "summary a =
     \<lparr>sum_id = analysis_id a, sum_status = status a, sum_progress = progress a,
      sum_message = message a, sum_current_step = current_step a,
      sum_status_url = status_url a, sum_result_url = result_url a,
      sum_startedAt = Some (startedAt a), sum_completedAt = completedAt a,
      sum_hasResult = js_truthy (result a),
      sum_result = (if nullish (result a) then None else result a)\<rparr>"

definition workspace_handler :: "query_id \<Rightarrow> string option \<Rightarrow> store \<Rightarrow> outcome" where
  "workspace_handler qid session s =
     (case valid_id qid of
        None \<Rightarrow> respond 400 (Error ''Invalid id'') s [] []
      | Some wid \<Rightarrow>
     (case session_email session of
        None \<Rightarrow> respond 401 (Error ''Unauthorized'') s [] []
      | Some caller \<Rightarrow>
     (case workspaces s wid of
        None \<Rightarrow> respond 404 (Error ''Workspace not found'') s [] []
      | Some w \<Rightarrow>
          if email w \<noteq> caller then respond 404 (Error ''Workspace not found'') s [] []
          else respond 200 (Workspace w (map_option summary (analyses s wid))) s [] [])))"

section \<open>POST /api/workspaces/create\<close>

text \<open>
  Lines 98 to 107: a falsy URL becomes \<open>null\<close>, a string starting with \<open>http\<close> is kept,
  any other string is put behind the base. A truthy value that is not a string has no
  \<open>startsWith\<close>: the call throws, which is \<open>None\<close> here.
\<close>

definition normalize_url :: "json option \<Rightarrow> string option option" where
  "normalize_url v =
     (if js_truthy v
      then (case v of
              Some (JStr u) \<Rightarrow> Some (Some (if startsWith u ''http'' then u else analyzer_base @ u))
            | _ \<Rightarrow> None)
      else Some None)"

text \<open>
  \<open>analyzeData?.workspace_id ?? null\<close> and \<open>analyzeData?.status ?? 'pending'\<close>, checked
  against their columns as the store's client checks them (\<open>None\<close>: it throws).
\<close>

definition create_external_id :: "json option \<Rightarrow> string option option" where
  "create_external_id v =
     (if nullish v then Some None
      else (case v of Some (JStr e) \<Rightarrow> Some (Some e) | _ \<Rightarrow> None))"

definition create_status :: "json option \<Rightarrow> string option" where
  "create_status v =
     (if nullish v then Some ''pending''
      else (case v of Some (JStr st) \<Rightarrow> Some st | _ \<Rightarrow> None))"

text \<open>
  The record of lines 110 to 118 for the reply \<open>analyzeData\<close>, with the identifier
  \<open>aid\<close> and the clock \<open>now\<close> that the store supplies; the columns the handler does not
  set take the defaults of the migration. \<open>None\<close> when a line throws first.
\<close>

definition new_analysis :: "string \<Rightarrow> string \<Rightarrow> nat \<Rightarrow> json \<Rightarrow> analysis option" where
  "new_analysis wid aid now analyzeData =
     (case normalize_url (opt_prop ''status_url'' analyzeData) of
        None \<Rightarrow> None
      | Some su \<Rightarrow>
     (case normalize_url (opt_prop ''result_url'' analyzeData) of
        None \<Rightarrow> None
      | Some ru \<Rightarrow>
     (case create_external_id (opt_prop ''workspace_id'' analyzeData) of
        None \<Rightarrow> None
      | Some ext \<Rightarrow>
     (case create_status (opt_prop ''status'' analyzeData) of
        None \<Rightarrow> None
      | Some st \<Rightarrow>
          Some \<lparr>analysis_id = aid, workspaceId = wid, external_workspace_id = ext,
                status = st, progress = None, message = None, current_step = None,
                status_url = su, result_url = ru, result = None, startedAt = now,
                completedAt = None, updatedAt = now\<rparr>))))"

definition created :: "analysis \<Rightarrow> created_summary" where
  "created a =
     \<lparr>new_id = analysis_id a, new_status = status a, new_status_url = status_url a,
      new_result_url = result_url a, new_hasResult = js_truthy (result a)\<rparr>"

text \<open>
  Lines 86 to 138, the inner \<open>try\<close>: \<open>s1\<close> is the store after the workspace \<open>w\<close> was
  created by \<open>w0\<close>, \<open>submit\<close> what the POST to the analyzer gives. The body that is not
  JSON is read as \<open>null\<close> (\<open>json().catch(() => null)\<close>); every throw ends in the
  \<open>catch\<close> of line 134, a 201 with the workspace alone.
\<close>

definition start_analysis :: "workspace \<Rightarrow> db_write \<Rightarrow> string \<Rightarrow> fetch_result \<Rightarrow> nat \<Rightarrow> store \<Rightarrow> outcome" where
  "start_analysis w w0 aid submit now s1 =
     (let us = [analyzer_base @ ''/api/analyze''] in
      case submit of
        NetworkError \<Rightarrow> respond 201 (Created w None) s1 us [w0]
      | Response c b \<Rightarrow>
          (case new_analysis (workspace_id w) aid now (case b of None \<Rightarrow> JNull | Some d \<Rightarrow> d) of
             None \<Rightarrow> respond 201 (Created w None) s1 us [w0]
           | Some a \<Rightarrow>
               (case apply_write (CreateAnalysis a) s1 of
                  None \<Rightarrow> respond 201 (Created w None) s1 us [w0]
                | Some s2 \<Rightarrow> respond 201 (Created w (Some (created a))) s2 us [w0, CreateAnalysis a])))"

text \<open>
  The record of lines 78 to 84, with the identifier \<open>wid\<close> and the clock \<open>now\<close> that the
  store supplies.
\<close>

definition new_workspace :: "string \<Rightarrow> string option \<Rightarrow> string option \<Rightarrow> string \<Rightarrow> nat \<Rightarrow> workspace" where
  "new_workspace wid name_in repo_in caller now =
     \<lparr>workspace_id = wid, name = trim (template_str name_in),
      github_repository = trim (template_str repo_in), email = caller,
      createdAt = now, ws_updatedAt = now\<rparr>"

text \<open>
  The handler: \<open>method\<close> is \<open>req.method\<close>, \<open>session\<close> the e-mail of the session,
  \<open>name_in\<close> and \<open>repo_in\<close> the two fields of the body (typed \<open>string\<close>, optional),
  \<open>wid\<close> and \<open>aid\<close> the identifiers the store gives the two new records, \<open>submit\<close> what
  the POST to the analyzer gives, \<open>now\<close> the clock.
\<close>

definition create_handler :: "string \<Rightarrow> string option \<Rightarrow> string option \<Rightarrow> string option \<Rightarrow> string \<Rightarrow> string \<Rightarrow> fetch_result \<Rightarrow> nat \<Rightarrow> store \<Rightarrow> outcome" where
  "create_handler method session name_in repo_in wid aid submit now s =
     (if method \<noteq> ''POST'' then respond 405 (Error ''Method not allowed'') s [] []
      else
     (case session_email session of
        None \<Rightarrow> respond 401 (Error ''Unauthorized'') s [] []
      | Some caller \<Rightarrow>
          if str_falsy name_in \<or> trim (template_str name_in) = []
          then respond 400 (Error ''Workspace name is required'') s [] []
          else if str_falsy repo_in \<or> \<not> js_includes (template_str repo_in) ''github.com''
          then respond 400 (Error ''Invalid GitHub repository URL'') s [] []
          else
            (let w = new_workspace wid name_in repo_in caller now
             in case apply_write (CreateWorkspace w) s of
                  None \<Rightarrow> internal_error s [] []
                | Some s1 \<Rightarrow> start_analysis w (CreateWorkspace w) aid submit now s1)))"

section \<open>Example data\<close>

definition alice :: string where
  "alice = ''alice@example.com''"

definition bob :: string where
  "bob = ''bob@example.com''"

definition ex_workspace :: workspace where
  "ex_workspace =
     \<lparr>workspace_id = ''w1'', name = ''demo'', github_repository = ''https://github.com/x/y'',
      email = alice, createdAt = 2, ws_updatedAt = 2\<rparr>"

definition ex_analysis :: analysis where
  "ex_analysis =
     \<lparr>analysis_id = ''a1'', workspaceId = ''w1'', external_workspace_id = Some ''ext-1'',
      status = ''running'', progress = Some 40, message = None, current_step = None,
      status_url = None, result_url = None, result = None, startedAt = 2,
      completedAt = None, updatedAt = 3\<rparr>"

definition ex_document :: json where
  "ex_document = JObj [(''project_summary'', JStr ''a summary'')]"

definition ex_done :: analysis where
  "ex_done =
     ex_analysis\<lparr>status := ''completed'', result := Some ex_document, completedAt := Some 5,
       updatedAt := 5\<rparr>"

text \<open>An analysis with a stored message.\<close>

definition ex_cloning :: analysis where
  "ex_cloning = ex_analysis\<lparr>message := Some ''cloning''\<rparr>"

text \<open>An analysis whose stored result is the JSON document \<open>false\<close>.\<close>

definition ex_scalar :: analysis where
  "ex_scalar = ex_done\<lparr>result := Some (JBool False)\<rparr>"

definition store_of :: "analysis \<Rightarrow> store" where
  "store_of a = \<lparr>workspaces = [''w1'' \<mapsto> ex_workspace], analyses = [''w1'' \<mapsto> a]\<rparr>"

definition ex_status_reply :: json where
  "ex_status_reply = JObj [(''status'', JStr ''running''), (''message'', JStr ''cloning'')]"

section \<open>Predicates on requests and replies\<close>

text \<open>
  A request whose workspace is created: it passes the checks of lines 54 to 76, and the
  store takes its name, its repository and the caller's e-mail.
\<close>

definition valid_create :: "string \<Rightarrow> string option \<Rightarrow> string option \<Rightarrow> string option \<Rightarrow> bool" where
  "valid_create method session name_in repo_in =
     (method = ''POST'' \<and> session_email session \<noteq> None \<and>
      \<not> (str_falsy name_in \<or> trim (template_str name_in) = []) \<and>
      \<not> (str_falsy repo_in \<or> \<not> js_includes (template_str repo_in) ''github.com'') \<and>
      \<not> has_nul (trim (template_str name_in)) \<and> \<not> has_nul (trim (template_str repo_in)) \<and>
      text_fits (session_email session))"

text \<open>
  A reply of the analyzer to the submission that goes through lines 96 to 118 without a
  throw: \<open>status_url\<close> and \<open>result_url\<close> are falsy or strings, \<open>workspace_id\<close> and
  \<open>status\<close> are absent, \<open>null\<close> or strings, and none of these strings has a U+0000.
\<close>

fun is_text :: "json option \<Rightarrow> bool" where
  "is_text (Some (JStr t)) = True"
| "is_text v = False"

definition url_ok :: "json option \<Rightarrow> bool" where
  "url_ok v = (is_text v \<or> \<not> js_truthy v)"

definition text_ok :: "json option \<Rightarrow> bool" where
  "text_ok v = (is_text v \<or> nullish v)"

fun clean :: "json option \<Rightarrow> bool" where
  "clean (Some (JStr t)) = (\<not> has_nul t)"
| "clean v = True"

definition well_typed :: "json \<Rightarrow> bool" where
  "well_typed d =
     (url_ok (opt_prop ''status_url'' d) \<and> url_ok (opt_prop ''result_url'' d) \<and>
      text_ok (opt_prop ''workspace_id'' d) \<and> text_ok (opt_prop ''status'' d) \<and>
      clean (opt_prop ''status_url'' d) \<and> clean (opt_prop ''result_url'' d) \<and>
      clean (opt_prop ''workspace_id'' d) \<and> clean (opt_prop ''status'' d))"

text \<open>The record that a reply without any of the four fields gives.\<close>

definition blank_analysis :: "string \<Rightarrow> string \<Rightarrow> nat \<Rightarrow> analysis" where
  "blank_analysis wid aid now =
     \<lparr>analysis_id = aid, workspaceId = wid, external_workspace_id = None, status = ''pending'',
      progress = None, message = None, current_step = None, status_url = None,
      result_url = None, result = None, startedAt = now, completedAt = None, updatedAt = now\<rparr>"

definition ex_submit_reply :: json where
  "ex_submit_reply =
     JObj [(''workspace_id'', JStr ''ext-1''), (''status'', JStr ''pending''),
           (''status_url'', JStr ''/api/status/abc''),
           (''result_url'', JStr ''https://cdn.example.com/r/abc'')]"

definition ex_created :: analysis where
  "ex_created =
     \<lparr>analysis_id = ''a1'', workspaceId = ''w1'', external_workspace_id = Some ''ext-1'',
      status = ''pending'', progress = None, message = None, current_step = None,
      status_url = Some ''http://0.0.0.0:8000/api/status/abc'',
      result_url = Some ''https://cdn.example.com/r/abc'', result = None, startedAt = 2,
      completedAt = None, updatedAt = 2\<rparr>"

section \<open>The polling loop of the workspace page\<close>

text \<open>
  The part of the page's state that the polling loop works on: the ref \<open>pollingRef\<close>
  with the identifier of the interval (\<open>None\<close> for \<open>null\<close>), the flags \<open>loading\<close> and
  \<open>error\<close>; and the part of the window it touches: the intervals that are set and not
  cleared (\<open>live\<close>), the identifier the next \<open>setInterval\<close> returns, the number of
  GETs of the status issued so far (\<open>requests\<close>), of those not yet answered
  (\<open>pending\<close>), and of the GETs of the workspace that the stop issues and that are not
  yet answered (\<open>finals\<close>). The copy of the workspace that the page shows is left out:
  no branch of the loop reads it.
\<close>

record poller =
  pollingRef :: "nat option"
  live :: "nat set"
  next_timer :: nat
  requests :: nat
  pending :: nat
  finals :: nat
  loading :: bool
  error_shown :: json

text \<open>The page as it is mounted: no interval yet; identifiers of intervals start at 1.\<close>

definition mounted :: poller where
  "mounted =
     \<lparr>pollingRef = None, live = {}, next_timer = 1, requests = 0, pending = 0, finals = 0,
      loading = True, error_shown = JStr ''''\<rparr>"

text \<open>\<open>if (pollingRef.current)\<close>: \<open>null\<close> and \<open>0\<close> are falsy.\<close>

fun ref_set :: "nat option \<Rightarrow> bool" where
  "ref_set None = False"
| "ref_set (Some t) = (t \<noteq> 0)"

text \<open>
  Lines 80 to 83, 99 to 102, 119 to 122 and 130 to 133:
  \<open>if (pollingRef.current) { clearInterval(pollingRef.current); pollingRef.current = null }\<close>
\<close>

definition clear_polling :: "poller \<Rightarrow> poller" where
  "clear_polling s =
     (case pollingRef s of
        None \<Rightarrow> s
      | Some t \<Rightarrow> if t \<noteq> 0 then s\<lparr>live := live s - {t}, pollingRef := None\<rparr> else s)"

text \<open>Lines 68 to 73 and 124: \<open>pollStatus\<close> up to the \<open>setInterval\<close>.\<close>

definition pollStatus :: "poller \<Rightarrow> poller" where
  "pollStatus s =
     (if ref_set (pollingRef s) then s
      else s\<lparr>error_shown := JStr '''', loading := True, pollingRef := Some (next_timer s),
             live := insert (next_timer s) (live s), next_timer := Suc (next_timer s)\<rparr>)"

text \<open>
  What the two awaits of lines 75 and 76 give: one of them throws (the fetch fails, or
  the body is not JSON), or there is a response with its status code and its parsed body.
\<close>

datatype poll_answer = Throws | Replied nat json

text \<open>\<open>analysis && analysis.result\<close>, for \<open>analysis = data.analysis\<close>\<close>

definition carries_result :: "json \<Rightarrow> bool" where
  "carries_result data =
     (case get_prop ''analysis'' data of
        None \<Rightarrow> False
      | Some an \<Rightarrow> truthy an \<and> js_truthy (get_prop ''result'' an))"

text \<open>Line 98: \<open>data.status === 'completed' || (analysis && analysis.result)\<close>\<close>

definition is_terminal :: "json \<Rightarrow> bool" where
  "is_terminal data = (get_prop ''status'' data = Some (JStr ''completed'') \<or> carries_result data)"

text \<open>Line 79: \<open>data?.error || 'Failed to fetch status'\<close>\<close>

definition error_of :: "json \<Rightarrow> json" where
  "error_of data =
     (case opt_prop ''error'' data of
        None \<Rightarrow> JStr ''Failed to fetch status''
      | Some v \<Rightarrow> if truthy v then v else JStr ''Failed to fetch status'')"

text \<open>Lines 115 to 123, the \<open>catch\<close> of the callback.\<close>

definition poll_failed :: "poller \<Rightarrow> poller" where
  "poll_failed s = clear_polling (s\<lparr>error_shown := JStr ''Polling failed'', loading := False\<rparr>)"

text \<open>
  Lines 77 to 114, the callback after its two awaits. A body \<open>null\<close> makes
  \<open>data.analysis\<close> throw. On the stop without a result the callback issues the GET of
  the workspace and sets \<open>loading\<close> only after its answer.
\<close>

definition on_answer :: "poll_answer \<Rightarrow> poller \<Rightarrow> poller" where
  "on_answer a s =
     (case a of
        Throws \<Rightarrow> poll_failed s
      | Replied c data \<Rightarrow>
          if \<not> ok c then (clear_polling (s\<lparr>error_shown := error_of data\<rparr>))\<lparr>loading := False\<rparr>
          else if data = JNull then poll_failed s
          else if is_terminal data then
            (if carries_result data then (clear_polling s)\<lparr>loading := False\<rparr>
             else (clear_polling s)\<lparr>finals := Suc (finals s)\<rparr>)
          else s)"

text \<open>
  What can happen to the page: \<open>pollStatus\<close> is called; the interval \<open>t\<close> fires, which
  it can only while it is set, and the callback issues its GET of the status; a pending
  GET of the status is answered and the callback runs on; a pending GET of the workspace
  is answered; the page is unmounted (lines 128 to 135). An event that cannot happen in
  a state gives \<open>None\<close>.
\<close>

datatype event = PollStatus | Tick nat | Answer poll_answer | FinalAnswer | Unmount

fun fire :: "event \<Rightarrow> poller \<Rightarrow> poller option" where
  "fire PollStatus s = Some (pollStatus s)"
| "fire (Tick t) s =
     (if t \<in> live s then Some (s\<lparr>requests := Suc (requests s), pending := Suc (pending s)\<rparr>)
      else None)"
| "fire (Answer a) s =
     (if pending s = 0 then None else Some (on_answer a (s\<lparr>pending := pending s - 1\<rparr>)))"
| "fire FinalAnswer s =
     (if finals s = 0 then None else Some (s\<lparr>finals := finals s - 1, loading := False\<rparr>))"
| "fire Unmount s = Some (clear_polling s)"

fun run :: "event list \<Rightarrow> poller \<Rightarrow> poller option" where
  "run [] s = Some s"
| "run (e # es) s = (case fire e s of None \<Rightarrow> None | Some s' \<Rightarrow> run es s')"

text \<open>
  The ref and the window agree: the interval that is set is the one the ref holds, and
  there is no other.
\<close>

definition tidy :: "poller \<Rightarrow> bool" where
  "tidy s = (0 < next_timer s \<and> pollingRef s \<noteq> Some 0 \<and> live s = set_option (pollingRef s))"

text \<open>
  A reply of the status check with the status \<open>running\<close> and an analysis whose result
  is the JSON document \<open>false\<close>.
\<close>

definition ex_falsy_reply :: json where
  "ex_falsy_reply =
     JObj [(''success'', JBool True), (''status'', JStr ''running''),
           (''analysis'', JObj [(''status'', JStr ''running''), (''result'', JBool False)])]"

section \<open>Properties of the status check\<close>

lemmas ex_defs =
  alice_def bob_def ex_workspace_def ex_analysis_def ex_document_def ex_done_def
  ex_cloning_def ex_scalar_def store_of_def

lemmas client_defs =
  merge_update_def merge_status_def merge_progress_def merge_text_def given_text_def
  given_nullable_text_def given_nullable_int_def arith_def sql_div_def int32_def has_nul_def

lemma status_polls:
  assumes "valid_id qid = Some wid" and "session_email session = Some e"
    and "analyses s wid = Some a" and "\<not> js_truthy (result a)"
    and "\<not> (str_falsy (status_url a) \<and> str_falsy (external_workspace_id a))"
  shows "status_handler qid session sresp rresp now s = poll_analyzer wid a sresp rresp now s"
  using assms by (auto simp add: status_handler_def)

text \<open>
  What the handler does for a result that passes the test of line 21: it replies with the
  stored analysis, fetches nothing and writes nothing, whatever the analyzer would
  answer and whatever the clock says, so any number of calls give the same reply.
\<close>

lemma status_short_circuit:
  assumes "valid_id qid = Some wid" and "session_email session = Some e"
    and "analyses s wid = Some a" and "js_truthy (result a)"
  shows "status_handler qid session sresp rresp now s =
           respond 200 (Status (Some (JStr ''completed'')) (Some a)) s [] []"
  using assms by (simp add: status_handler_def)

text \<open>
  C1: for every workspace whose analysis has a non-null result, the status check replies
  200 with status \<open>completed\<close> and the stored analysis, without a call to the analyzer
  and without a write. The handler tests the result for truthiness, so this fails for a
  stored result that is not \<open>null\<close> but falsy: with the document \<open>false\<close> stored, the
  handler asks the analyzer for the status and for the result again and writes both
  updates, replacing the stored result and its completion time.
\<close>

theorem scalar_result_is_fetched_again:
  "result ex_scalar = Some (JBool False) \<and>
   status_handler (QStr ''w1'') (Some alice)
       (Response 200 (Some (JObj [(''status'', JStr ''completed'')])))
       (Response 200 (Some ex_document)) 9 (store_of ex_scalar) =
     respond 200
       (Status (Some (JStr ''completed''))
          (Some (ex_scalar\<lparr>result := Some ex_document, completedAt := Some 9, updatedAt := 9\<rparr>)))
       (store_of (ex_scalar\<lparr>result := Some ex_document, completedAt := Some 9, updatedAt := 9\<rparr>))
       [''http://0.0.0.0:8000/api/status/ext-1'', ''http://0.0.0.0:8000/api/result/ext-1'']
       [UpdateStatus ''w1'' ''completed'' (Some 40) None None 9, UpdateResult ''w1'' ex_document 9]"
  by (simp add: ex_defs client_defs status_handler_def poll_analyzer_def complete_analysis_def
        status_url_of_def result_url_of_def analyzer_base_def ok_def respond_def)

text \<open>
  C2, as the code has it: for a workspace id with no analysis record the status check
  replies 404 with the error \<open>No analysis record\<close>; it fetches nothing and writes
  nothing.
\<close>

theorem status_without_record:
  assumes "valid_id qid = Some wid" and "session_email session = Some e"
    and "analyses s wid = None"
  shows "status_handler qid session sresp rresp now s =
           respond 404 (Error ''No analysis record'') s [] []"
  using assms by (simp add: status_handler_def)

theorem status_without_record_witness:
  "status_handler (QStr ''w1'') (Some alice) NetworkError NetworkError 0 empty_store =
     respond 404 (Error ''No analysis record'') empty_store [] []"
  using status_without_record [of "QStr ''w1''" "''w1''" "Some alice" alice empty_store]
  by (simp add: alice_def empty_store_def)

text \<open>
  C2, as the claim states it, fails: with no analysis record the reply is not a 200 with
  status \<open>pending\<close> but the error reply 404.
\<close>

theorem status_without_record_counterexample:
  "analyses empty_store ''w1'' = None \<and>
   http_code (status_handler (QStr ''w1'') (Some alice) NetworkError NetworkError 0 empty_store) = 404 \<and>
   body (status_handler (QStr ''w1'') (Some alice) NetworkError NetworkError 0 empty_store) =
     Error ''No analysis record'' \<and>
   body (status_handler (QStr ''w1'') (Some alice) NetworkError NetworkError 0 empty_store) \<noteq>
     Status (Some (JStr ''pending'')) None"
  by (simp add: status_handler_def alice_def empty_store_def respond_def)

text \<open>
  C6: a read of a workspace that the caller does not own is answered 404, on the status
  check as well. The read of the workspace does so; the status check reads the caller's
  e-mail and never compares it: for a workspace of \<open>alice\<close>, \<open>bob\<close> gets 404 from the
  read of the workspace and 200 with the whole analysis from the status check.
\<close>

theorem other_user_reads_analysis:
  "email ex_workspace = alice \<and> alice \<noteq> bob \<and>
   workspace_handler (QStr ''w1'') (Some bob) (store_of ex_done) =
     respond 404 (Error ''Workspace not found'') (store_of ex_done) [] [] \<and>
   status_handler (QStr ''w1'') (Some bob) NetworkError NetworkError 9 (store_of ex_done) =
     respond 200 (Status (Some (JStr ''completed'')) (Some ex_done)) (store_of ex_done) [] []"
  by (simp add: ex_defs status_handler_def workspace_handler_def)

lemma merge_update_fits: "merge_update wid a d now = Some w \<Longrightarrow> fits w"
  by (auto simp: merge_update_def split: option.splits if_splits)

text \<open>
  When the client refuses a merged value, or a column does, nothing is written: the
  reply is a 500 and the store is the one before the call.
\<close>

lemma merge_refused:
  assumes "valid_id qid = Some wid" and "session_email session = Some e"
    and "analyses s wid = Some a" and "\<not> js_truthy (result a)"
    and "\<not> (str_falsy (status_url a) \<and> str_falsy (external_workspace_id a))"
    and "sresp = Response c (Some d)" and "ok c" and "merge_update wid a d now = None"
  shows "status_handler qid session sresp rresp now s = internal_error s [status_url_of a] []"
  using assms(6-8) by (simp add: status_polls [OF assms(1-5)] poll_analyzer_def Let_def)

text \<open>
  C3: in the merge of lines 40 to 48 a field that the status reply has replaces the
  stored one, a field that it omits keeps it, and a stored value never becomes \<open>null\<close>.
  The handler hands the analyzer's value to the update unchecked, and the store's
  client reads an object as an operation: with the message \<open>cloning\<close> stored and the
  status reply \<open>{"status": "running", "message": {"set": null}}\<close> the reply is a 200
  and the update has set the stored message to \<open>null\<close>.
\<close>

theorem set_null_erases_message:
  "message ex_cloning = Some ''cloning'' \<and>
   status_handler (QStr ''w1'') (Some alice)
       (Response 200 (Some (JObj [(''status'', JStr ''running''),
                                   (''message'', JObj [(''set'', JNull)])])))
       NetworkError 7 (store_of ex_cloning) =
     respond 200
       (Status (Some (JStr ''running'')) (Some (ex_cloning\<lparr>message := None, updatedAt := 7\<rparr>)))
       (store_of (ex_cloning\<lparr>message := None, updatedAt := 7\<rparr>))
       [''http://0.0.0.0:8000/api/status/ext-1'']
       [UpdateStatus ''w1'' ''running'' (Some 40) None None 7] \<and>
   message (ex_cloning\<lparr>message := None, updatedAt := 7\<rparr>) = None"
  by (simp add: ex_defs client_defs status_handler_def poll_analyzer_def status_url_of_def
        analyzer_base_def ok_def respond_def)

text \<open>
  C4: a fetch that the analyzer answers with a status outside 200 to 299 ends the call
  with a 502, and the store holds what was written before that fetch. When it is the
  fetch of the status, nothing was written: the store is the one before the call. When it
  is the fetch of the result, the merge is the one write: the record is the stored one
  with the four merged fields, its \<open>result\<close> and \<open>completedAt\<close> as they were, so a
  result that was \<open>null\<close> is still \<open>null\<close>.
\<close>

theorem upstream_failure_keeps_committed_state:
  assumes "valid_id qid = Some wid" and "session_email session = Some e"
    and "analyses s wid = Some a" and "\<not> js_truthy (result a)"
    and "\<not> (str_falsy (status_url a) \<and> str_falsy (external_workspace_id a))"
  shows "(\<forall>c b. sresp = Response c b \<and> \<not> ok c \<longrightarrow>
            status_handler qid session sresp rresp now s =
              respond 502 (Error ''Failed to fetch status from analyzer'') s [status_url_of a] []) \<and>
         (\<forall>c d st pr msg step c2 b2.
            sresp = Response c (Some d) \<and> ok c \<and> d \<noteq> JNull \<and>
            merge_update wid a d now = Some (UpdateStatus wid st pr msg step now) \<and>
            get_prop ''status'' d = Some (JStr ''completed'') \<and>
            rresp = Response c2 b2 \<and> \<not> ok c2 \<longrightarrow>
            status_handler qid session sresp rresp now s =
              respond 502 (Error ''Failed to fetch result from analyzer'')
                (s\<lparr>analyses := (analyses s)(wid \<mapsto>
                   a\<lparr>status := st, progress := pr, message := msg, current_step := step,
                     updatedAt := now\<rparr>)\<rparr>)
                [status_url_of a, result_url_of a d] [UpdateStatus wid st pr msg step now] \<and>
            (\<exists>a'. analyses (db (status_handler qid session sresp rresp now s)) wid = Some a' \<and>
               result a' = result a \<and> completedAt a' = completedAt a \<and>
               (result a = None \<longrightarrow> result a' = None)))"
proof -
  have h: "status_handler qid session sresp rresp now s = poll_analyzer wid a sresp rresp now s"
    by (rule status_polls [OF assms])
  show ?thesis
    unfolding h using assms(3)
    by (auto simp: poll_analyzer_def complete_analysis_def respond_def Let_def
          dest: merge_update_fits)
qed

theorem upstream_failure_keeps_committed_state_witness:
  "status_handler (QStr ''w1'') (Some alice) (Response 503 None) NetworkError 7 (store_of ex_analysis) =
     respond 502 (Error ''Failed to fetch status from analyzer'') (store_of ex_analysis)
       [''http://0.0.0.0:8000/api/status/ext-1''] [] \<and>
   status_handler (QStr ''w1'') (Some alice)
       (Response 200 (Some (JObj [(''status'', JStr ''completed'')]))) (Response 503 None) 7
       (store_of ex_analysis) =
     respond 502 (Error ''Failed to fetch result from analyzer'')
       (store_of (ex_analysis\<lparr>status := ''completed'', updatedAt := 7\<rparr>))
       [''http://0.0.0.0:8000/api/status/ext-1'', ''http://0.0.0.0:8000/api/result/ext-1'']
       [UpdateStatus ''w1'' ''completed'' (Some 40) None None 7] \<and>
   result (ex_analysis\<lparr>status := ''completed'', updatedAt := 7\<rparr>) = None"
proof -
  have 1: "valid_id (QStr ''w1'') = Some ''w1''" by simp
  have 2: "session_email (Some alice) = Some alice" by (simp add: alice_def)
  have 3: "analyses (store_of ex_analysis) ''w1'' = Some ex_analysis" by (simp add: store_of_def)
  have 4: "\<not> js_truthy (result ex_analysis)" by (simp add: ex_analysis_def)
  have 5: "\<not> (str_falsy (status_url ex_analysis) \<and> str_falsy (external_workspace_id ex_analysis))"
    by (simp add: ex_analysis_def)
  have m: "merge_update ''w1'' ex_analysis (JObj [(''status'', JStr ''completed'')]) 7 =
             Some (UpdateStatus ''w1'' ''completed'' (Some 40) None None 7)"
    by (simp add: client_defs ex_analysis_def)
  have u: "status_url_of ex_analysis = ''http://0.0.0.0:8000/api/status/ext-1''"
    by (simp add: status_url_of_def ex_analysis_def analyzer_base_def)
  have r: "result_url_of ex_analysis (JObj [(''status'', JStr ''completed'')]) =
             ''http://0.0.0.0:8000/api/result/ext-1''"
    by (simp add: result_url_of_def ex_analysis_def analyzer_base_def)
  have a: "status_handler (QStr ''w1'') (Some alice) (Response 503 None) NetworkError 7 (store_of ex_analysis) =
     respond 502 (Error ''Failed to fetch status from analyzer'') (store_of ex_analysis)
       [''http://0.0.0.0:8000/api/status/ext-1''] []"
    using upstream_failure_keeps_committed_state [OF 1 2 3 4 5, of "Response 503 None" NetworkError 7]
    by (simp add: ok_def u)
  have b: "status_handler (QStr ''w1'') (Some alice)
       (Response 200 (Some (JObj [(''status'', JStr ''completed'')]))) (Response 503 None) 7
       (store_of ex_analysis) =
     respond 502 (Error ''Failed to fetch result from analyzer'')
       (store_of (ex_analysis\<lparr>status := ''completed'', updatedAt := 7\<rparr>))
       [''http://0.0.0.0:8000/api/status/ext-1'', ''http://0.0.0.0:8000/api/result/ext-1'']
       [UpdateStatus ''w1'' ''completed'' (Some 40) None None 7]"
    using upstream_failure_keeps_committed_state [OF 1 2 3 4 5,
        of "Response 200 (Some (JObj [(''status'', JStr ''completed'')]))" "Response 503 None" 7] m
    by (simp add: ok_def u r) (simp add: store_of_def ex_analysis_def)
  have c: "result (ex_analysis\<lparr>status := ''completed'', updatedAt := 7\<rparr>) = None"
    by (simp add: ex_analysis_def)
  from a b c show ?thesis by blast
qed

text \<open>
  C5: an analysis has \<open>completedAt\<close> set if and only if its \<open>result\<close> is not \<open>null\<close>.
  The completion of lines 58 to 65 hands the result document to the update unchecked:
  when the analyzer answers the fetch of the result with the document \<open>null\<close>, the one
  update sets \<open>completedAt\<close> and the status \<open>completed\<close> and leaves \<open>result\<close>
  \<open>null\<close>, and the reply is a 200.
\<close>

theorem null_result_is_completed:
  "status_handler (QStr ''w1'') (Some alice)
       (Response 200 (Some (JObj [(''status'', JStr ''completed'')])))
       (Response 200 (Some JNull)) 9 (store_of ex_analysis) =
     respond 200
       (Status (Some (JStr ''completed''))
          (Some (ex_analysis\<lparr>status := ''completed'', completedAt := Some 9, updatedAt := 9\<rparr>)))
       (store_of (ex_analysis\<lparr>status := ''completed'', completedAt := Some 9, updatedAt := 9\<rparr>))
       [''http://0.0.0.0:8000/api/status/ext-1'', ''http://0.0.0.0:8000/api/result/ext-1'']
       [UpdateStatus ''w1'' ''completed'' (Some 40) None None 9, UpdateResult ''w1'' JNull 9] \<and>
   result (ex_analysis\<lparr>status := ''completed'', completedAt := Some 9, updatedAt := 9\<rparr>) = None \<and>
   completedAt (ex_analysis\<lparr>status := ''completed'', completedAt := Some 9, updatedAt := 9\<rparr>) = Some 9"
  by (simp add: ex_defs client_defs status_handler_def poll_analyzer_def complete_analysis_def
        status_url_of_def result_url_of_def analyzer_base_def ok_def respond_def)

section \<open>Properties of the creation\<close>

lemma is_text_iff: "is_text v = (\<exists>t. v = Some (JStr t))"
  by (cases v rule: is_text.cases) auto

lemma normalize_url_ok: "(normalize_url v \<noteq> None) = url_ok v"
  by (cases v rule: is_text.cases) (auto simp: normalize_url_def url_ok_def)

lemma create_external_id_ok: "(create_external_id v \<noteq> None) = text_ok v"
  by (cases v rule: is_text.cases) (auto simp: create_external_id_def text_ok_def)

lemma create_status_ok: "(create_status v \<noteq> None) = text_ok v"
  by (cases v rule: is_text.cases) (auto simp: create_status_def text_ok_def)

lemma new_analysis_typed:
  "(new_analysis wid aid now d \<noteq> None) =
     (url_ok (opt_prop ''status_url'' d) \<and> url_ok (opt_prop ''result_url'' d) \<and>
      text_ok (opt_prop ''workspace_id'' d) \<and> text_ok (opt_prop ''status'' d))"
proof -
  have "(new_analysis wid aid now d \<noteq> None) =
          (normalize_url (opt_prop ''status_url'' d) \<noteq> None \<and>
           normalize_url (opt_prop ''result_url'' d) \<noteq> None \<and>
           create_external_id (opt_prop ''workspace_id'' d) \<noteq> None \<and>
           create_status (opt_prop ''status'' d) \<noteq> None)"
    by (auto simp: new_analysis_def split: option.splits)
  then show ?thesis
    by (simp only: normalize_url_ok create_external_id_ok create_status_ok)
qed

lemma has_nul_base: "has_nul (analyzer_base @ u) = has_nul u"
  by (simp add: has_nul_def analyzer_base_def)

lemma has_nul_empty: "\<not> has_nul []"
  by (simp add: has_nul_def)

lemma normalize_url_fits: "normalize_url v = Some r \<Longrightarrow> text_fits r = clean v"
  by (cases v rule: clean.cases)
     (auto simp: normalize_url_def has_nul_base has_nul_empty split: if_splits)

lemma create_external_id_fits: "create_external_id v = Some r \<Longrightarrow> text_fits r = clean v"
  by (cases v rule: clean.cases) (auto simp: create_external_id_def split: if_splits)

lemma create_status_fits: "create_status v = Some st \<Longrightarrow> (\<not> has_nul st) = clean v"
  by (cases v rule: clean.cases) (auto simp: create_status_def has_nul_def split: if_splits)

lemma new_analysis_blank:
  assumes "new_analysis wid aid now d = Some a"
  shows "workspaceId a = wid" and "analysis_id a = aid" and "result a = None"
    and "completedAt a = None" and "progress a = None" and "message a = None"
    and "current_step a = None" and "startedAt a = now"
    and "normalize_url (opt_prop ''status_url'' d) = Some (status_url a)"
    and "normalize_url (opt_prop ''result_url'' d) = Some (result_url a)"
    and "create_external_id (opt_prop ''workspace_id'' d) = Some (external_workspace_id a)"
    and "create_status (opt_prop ''status'' d) = Some (status a)"
  using assms by (auto simp: new_analysis_def split: option.splits)

lemma create_valid:
  assumes "valid_create method session name_in repo_in" and "session_email session = Some caller"
    and "workspaces s wid = None"
  shows "create_handler method session name_in repo_in wid aid submit now s =
           start_analysis (new_workspace wid name_in repo_in caller now)
             (CreateWorkspace (new_workspace wid name_in repo_in caller now)) aid submit now
             (s\<lparr>workspaces := (workspaces s)(wid \<mapsto> new_workspace wid name_in repo_in caller now)\<rparr>)"
  using assms
  by (simp add: create_handler_def valid_create_def new_workspace_def Let_def)

lemma start_analysis_throw:
  "start_analysis w w0 aid NetworkError now s1 =
     respond 201 (Created w None) s1 [analyzer_base @ ''/api/analyze''] [w0]"
  by (simp add: start_analysis_def)

lemma start_analysis_code:
  "start_analysis w w0 aid (Response c b) now s1 = start_analysis w w0 aid (Response c' b) now s1"
  by (simp add: start_analysis_def)

lemma new_analysis_fits:
  assumes "new_analysis wid aid now d = Some a"
  shows "fits (CreateAnalysis a) =
           (clean (opt_prop ''status_url'' d) \<and> clean (opt_prop ''result_url'' d) \<and>
            clean (opt_prop ''workspace_id'' d) \<and> clean (opt_prop ''status'' d))"
  using normalize_url_fits [OF new_analysis_blank(9) [OF assms]]
    normalize_url_fits [OF new_analysis_blank(10) [OF assms]]
    create_external_id_fits [OF new_analysis_blank(11) [OF assms]]
    create_status_fits [OF new_analysis_blank(12) [OF assms]]
    new_analysis_blank(3,5,6,7) [OF assms]
  by auto

lemma start_analysis_record:
  assumes "new_analysis (workspace_id w) aid now (case b of None \<Rightarrow> JNull | Some d \<Rightarrow> d) = Some a"
    and "fits (CreateAnalysis a)"
    and "analyses s1 (workspace_id w) = None" and "workspaces s1 (workspace_id w) \<noteq> None"
  shows "start_analysis w w0 aid (Response c b) now s1 =
           respond 201 (Created w (Some (created a)))
             (s1\<lparr>analyses := (analyses s1)(workspace_id w \<mapsto> a)\<rparr>)
             [analyzer_base @ ''/api/analyze''] [w0, CreateAnalysis a]"
  using assms new_analysis_blank(1) [OF assms(1)]
  by (auto simp: start_analysis_def)

lemma start_analysis_no_record:
  assumes "new_analysis (workspace_id w) aid now (case b of None \<Rightarrow> JNull | Some d \<Rightarrow> d) = None"
  shows "start_analysis w w0 aid (Response c b) now s1 =
           respond 201 (Created w None) s1 [analyzer_base @ ''/api/analyze''] [w0]"
  using assms by (simp add: start_analysis_def)

lemma start_analysis_refused:
  assumes "new_analysis (workspace_id w) aid now (case b of None \<Rightarrow> JNull | Some d \<Rightarrow> d) = Some a"
    and "\<not> fits (CreateAnalysis a)"
  shows "start_analysis w w0 aid (Response c b) now s1 =
           respond 201 (Created w None) s1 [analyzer_base @ ''/api/analyze''] [w0]"
  using assms by (simp add: start_analysis_def)

lemma trim_demo: "trim ''demo'' = ''demo''"
  by code_simp

lemma trim_repo: "trim ''https://github.com/x/y'' = ''https://github.com/x/y''"
  by code_simp

lemma ex_valid_create:
  "valid_create ''POST'' (Some alice) (Some ''demo'') (Some ''https://github.com/x/y'')"
  by (simp add: valid_create_def alice_def trim_demo trim_repo has_nul_def startsWith_def)

lemma ex_new_workspace:
  "new_workspace ''w1'' (Some ''demo'') (Some ''https://github.com/x/y'') alice 2 = ex_workspace"
  by (simp add: new_workspace_def ex_workspace_def trim_demo trim_repo)

lemma ex_new_analysis: "new_analysis ''w1'' ''a1'' 2 ex_submit_reply = Some ex_created"
  by (simp add: new_analysis_def ex_submit_reply_def ex_created_def normalize_url_def
        create_external_id_def create_status_def startsWith_def analyzer_base_def)

lemma ex_created_fits: "fits (CreateAnalysis ex_created)"
  by (simp add: ex_created_def has_nul_def)

text \<open>
  C7: when the submission to the analyzer fails (the fetch throws), the creation of the
  workspace still succeeds: the reply is 201 with the workspace, the workspace is in the
  store, and there is no analysis record for it.
\<close>

theorem submission_failure_is_swallowed:
  assumes "valid_create method session name_in repo_in" and "session_email session = Some caller"
    and "workspaces s wid = None" and "analyses s wid = None"
  shows "create_handler method session name_in repo_in wid aid NetworkError now s =
           respond 201 (Created (new_workspace wid name_in repo_in caller now) None)
             (s\<lparr>workspaces := (workspaces s)(wid \<mapsto> new_workspace wid name_in repo_in caller now)\<rparr>)
             [analyzer_base @ ''/api/analyze'']
             [CreateWorkspace (new_workspace wid name_in repo_in caller now)] \<and>
         workspaces (db (create_handler method session name_in repo_in wid aid NetworkError now s)) wid =
           Some (new_workspace wid name_in repo_in caller now) \<and>
         analyses (db (create_handler method session name_in repo_in wid aid NetworkError now s)) wid = None"
  using assms(4)
  by (simp add: create_valid [OF assms(1-3)] start_analysis_throw respond_def)

theorem submission_failure_is_swallowed_witness:
  "create_handler ''POST'' (Some alice) (Some ''demo'') (Some ''https://github.com/x/y'') ''w1'' ''a1''
       NetworkError 2 empty_store =
     respond 201 (Created ex_workspace None)
       \<lparr>workspaces = [''w1'' \<mapsto> ex_workspace], analyses = Map.empty\<rparr>
       [''http://0.0.0.0:8000/api/analyze''] [CreateWorkspace ex_workspace] \<and>
   analyses (db (create_handler ''POST'' (Some alice) (Some ''demo'') (Some ''https://github.com/x/y'')
       ''w1'' ''a1'' NetworkError 2 empty_store)) ''w1'' = None"
proof -
  have 2: "session_email (Some alice) = Some alice" by (simp add: alice_def)
  have 3: "workspaces empty_store ''w1'' = None" by (simp add: empty_store_def)
  have 4: "analyses empty_store ''w1'' = None" by (simp add: empty_store_def)
  from submission_failure_is_swallowed [OF ex_valid_create 2 3 4, of "''a1''" 2]
  show ?thesis by (simp add: ex_new_workspace empty_store_def analyzer_base_def respond_def)
qed

lemma startsWith_append: "startsWith u (p @ q) \<Longrightarrow> startsWith u p"
proof -
  assume "startsWith u (p @ q)"
  then have "take (length p + length q) u = p @ q" by (simp add: startsWith_def)
  then have "take (length p) (take (length p + length q) u) = take (length p) (p @ q)" by simp
  then show ?thesis by (simp add: startsWith_def min_def)
qed

lemma normalize_url_text:
  assumes "normalize_url v = Some r"
  shows "(\<forall>u. v = Some (JStr u) \<and> u \<noteq> [] \<longrightarrow>
            r = Some (if startsWith u ''http'' then u else analyzer_base @ u)) \<and>
         (\<forall>p. v = Some (JStr (CHR ''/'' # p)) \<longrightarrow> r = Some (analyzer_base @ CHR ''/'' # p)) \<and>
         (\<forall>u. v = Some (JStr u) \<and> (startsWith u ''http://'' \<or> startsWith u ''https://'') \<longrightarrow>
            r = Some u)"
proof -
  have a: "\<And>u. startsWith u ''http://'' \<Longrightarrow> startsWith u ''http''"
    using startsWith_append [of _ "''http''" "''://''"] by simp
  have b: "\<And>u. startsWith u ''https://'' \<Longrightarrow> startsWith u ''http''"
    using startsWith_append [of _ "''http''" "''s://''"] by simp
  have c: "\<And>u. startsWith u ''http'' \<Longrightarrow> u \<noteq> []"
    by (auto simp: startsWith_def)
  have d: "\<And>p. \<not> startsWith (CHR ''/'' # p) ''http''"
    by (simp add: startsWith_def)
  show ?thesis
    using assms a b c d by (auto simp: normalize_url_def split: if_splits)
qed

lemma create_stores_new_analysis:
  assumes "valid_create method session name_in repo_in" and "session_email session = Some caller"
    and "workspaces s wid = None" and "analyses s wid = None"
    and "analyses (db (create_handler method session name_in repo_in wid aid (Response c b) now s)) wid = Some a"
  shows "new_analysis wid aid now (case b of None \<Rightarrow> JNull | Some d \<Rightarrow> d) = Some a"
proof (cases "new_analysis wid aid now (case b of None \<Rightarrow> JNull | Some d \<Rightarrow> d)")
  case None
  then have "new_analysis (workspace_id (new_workspace wid name_in repo_in caller now)) aid now
               (case b of None \<Rightarrow> JNull | Some d \<Rightarrow> d) = None"
    by (simp add: new_workspace_def)
  from start_analysis_no_record [OF this] assms(4,5) show ?thesis
    by (simp add: create_valid [OF assms(1-3)] respond_def)
next
  case (Some a0)
  then have n: "new_analysis (workspace_id (new_workspace wid name_in repo_in caller now)) aid now
               (case b of None \<Rightarrow> JNull | Some d \<Rightarrow> d) = Some a0"
    by (simp add: new_workspace_def)
  show ?thesis
  proof (cases "fits (CreateAnalysis a0)")
    case False
    from start_analysis_refused [OF n False] assms(4,5) show ?thesis
      by (simp add: create_valid [OF assms(1-3)] respond_def)
  next
    case True
    have "start_analysis (new_workspace wid name_in repo_in caller now)
            (CreateWorkspace (new_workspace wid name_in repo_in caller now)) aid (Response c b) now
            (s\<lparr>workspaces := (workspaces s)(wid \<mapsto> new_workspace wid name_in repo_in caller now)\<rparr>) =
          respond 201 (Created (new_workspace wid name_in repo_in caller now) (Some (created a0)))
            (s\<lparr>workspaces := (workspaces s)(wid \<mapsto> new_workspace wid name_in repo_in caller now),
               analyses := (analyses s)(wid \<mapsto> a0)\<rparr>)
            [analyzer_base @ ''/api/analyze'']
            [CreateWorkspace (new_workspace wid name_in repo_in caller now), CreateAnalysis a0]"
      using start_analysis_record [OF n True, of _ "CreateWorkspace (new_workspace wid name_in repo_in caller now)" c]
        assms(4)
      by (simp add: new_workspace_def)
    with assms(5) Some show ?thesis
      by (simp add: create_valid [OF assms(1-3)] respond_def)
  qed
qed

text \<open>
  C8: the \<open>status_url\<close> and \<open>result_url\<close> of the analyzer's reply are normalized in the
  record that the creation stores: a non-empty string that does not start with \<open>http\<close>
  is stored behind the analyzer's base, so a path \<open>/p\<close> is stored as \<open><base>/p\<close>; a
  string that starts with \<open>http\<close>, so every \<open>http://\<close> and \<open>https://\<close> URL, is stored
  unchanged.
\<close>

theorem urls_normalized_at_creation:
  assumes "valid_create method session name_in repo_in" and "session_email session = Some caller"
    and "workspaces s wid = None" and "analyses s wid = None"
    and "analyses (db (create_handler method session name_in repo_in wid aid (Response c (Some d)) now s)) wid = Some a"
  shows "(\<forall>u. opt_prop ''status_url'' d = Some (JStr u) \<and> u \<noteq> [] \<longrightarrow>
            status_url a = Some (if startsWith u ''http'' then u else analyzer_base @ u)) \<and>
         (\<forall>p. opt_prop ''status_url'' d = Some (JStr (CHR ''/'' # p)) \<longrightarrow>
            status_url a = Some (analyzer_base @ CHR ''/'' # p)) \<and>
         (\<forall>u. opt_prop ''status_url'' d = Some (JStr u) \<and>
              (startsWith u ''http://'' \<or> startsWith u ''https://'') \<longrightarrow>
            status_url a = Some u) \<and>
         (\<forall>u. opt_prop ''result_url'' d = Some (JStr u) \<and> u \<noteq> [] \<longrightarrow>
            result_url a = Some (if startsWith u ''http'' then u else analyzer_base @ u)) \<and>
         (\<forall>p. opt_prop ''result_url'' d = Some (JStr (CHR ''/'' # p)) \<longrightarrow>
            result_url a = Some (analyzer_base @ CHR ''/'' # p)) \<and>
         (\<forall>u. opt_prop ''result_url'' d = Some (JStr u) \<and>
              (startsWith u ''http://'' \<or> startsWith u ''https://'') \<longrightarrow>
            result_url a = Some u)"
proof -
  from create_stores_new_analysis [OF assms]
  have n: "new_analysis wid aid now d = Some a" by simp
  from normalize_url_text [OF new_analysis_blank(9) [OF n]]
    normalize_url_text [OF new_analysis_blank(10) [OF n]]
  show ?thesis by simp
qed

theorem urls_normalized_at_creation_witness:
  "\<exists>a. analyses (db (create_handler ''POST'' (Some alice) (Some ''demo'')
            (Some ''https://github.com/x/y'') ''w1'' ''a1'' (Response 200 (Some ex_submit_reply)) 2
            empty_store)) ''w1'' = Some a \<and>
       opt_prop ''status_url'' ex_submit_reply = Some (JStr ''/api/status/abc'') \<and>
       status_url a = Some ''http://0.0.0.0:8000/api/status/abc'' \<and>
       opt_prop ''result_url'' ex_submit_reply = Some (JStr ''https://cdn.example.com/r/abc'') \<and>
       result_url a = Some ''https://cdn.example.com/r/abc''"
proof -
  have 2: "session_email (Some alice) = Some alice" by (simp add: alice_def)
  have 3: "workspaces empty_store ''w1'' = None" by (simp add: empty_store_def)
  have 4: "analyses empty_store ''w1'' = None" by (simp add: empty_store_def)
  have n: "new_analysis (workspace_id (new_workspace ''w1'' (Some ''demo'') (Some ''https://github.com/x/y'') alice 2))
             ''a1'' 2 (case Some ex_submit_reply of None \<Rightarrow> JNull | Some d \<Rightarrow> d) = Some ex_created"
    by (simp add: ex_new_workspace ex_workspace_def ex_new_analysis)
  have 5: "analyses (db (create_handler ''POST'' (Some alice) (Some ''demo'')
            (Some ''https://github.com/x/y'') ''w1'' ''a1'' (Response 200 (Some ex_submit_reply)) 2
            empty_store)) ''w1'' = Some ex_created"
    using start_analysis_record [OF n ex_created_fits, of _ _ 200] 3 4
    by (simp add: create_valid [OF ex_valid_create 2 3] respond_def ex_new_workspace ex_workspace_def)
  have s: "opt_prop ''status_url'' ex_submit_reply = Some (JStr ''/api/status/abc'')"
    by (simp add: ex_submit_reply_def)
  have r: "opt_prop ''result_url'' ex_submit_reply = Some (JStr ''https://cdn.example.com/r/abc'')"
    by (simp add: ex_submit_reply_def)
  have h: "startsWith ''https://cdn.example.com/r/abc'' ''https://''"
    by (simp add: startsWith_def)
  from urls_normalized_at_creation [OF ex_valid_create 2 3 4 5] s r h
  have "status_url ex_created = Some (analyzer_base @ ''/api/status/abc'') \<and>
        result_url ex_created = Some ''https://cdn.example.com/r/abc''"
    by blast
  with 5 s r show ?thesis by (simp add: analyzer_base_def)
qed

text \<open>
  C10, as the code has it: the status code of the analyzer's reply to the submission is
  never read. When the body, read as JSON (\<open>null\<close> when it does not parse), is well
  typed, which includes that the text columns take its strings (none has a U+0000), the
  record built from it is stored, whatever the code; a body that does not parse gives
  the record with status \<open>pending\<close> and no external id, \<open>status_url\<close> or \<open>result_url\<close>.
  When a field has another type, or a string that its column refuses, the inner \<open>try\<close>
  throws and no record is stored, as when the fetch throws.
\<close>

theorem submit_reply_stored_whatever_its_code:
  assumes "valid_create method session name_in repo_in" and "session_email session = Some caller"
    and "workspaces s wid = None" and "analyses s wid = None"
  shows "create_handler method session name_in repo_in wid aid (Response c b) now s =
           create_handler method session name_in repo_in wid aid (Response c' b) now s \<and>
         (if well_typed (case b of None \<Rightarrow> JNull | Some d \<Rightarrow> d)
          then (\<exists>a. new_analysis wid aid now (case b of None \<Rightarrow> JNull | Some d \<Rightarrow> d) = Some a \<and>
                  create_handler method session name_in repo_in wid aid (Response c b) now s =
                    respond 201 (Created (new_workspace wid name_in repo_in caller now) (Some (created a)))
                      (s\<lparr>workspaces := (workspaces s)(wid \<mapsto> new_workspace wid name_in repo_in caller now),
                         analyses := (analyses s)(wid \<mapsto> a)\<rparr>)
                      [analyzer_base @ ''/api/analyze'']
                      [CreateWorkspace (new_workspace wid name_in repo_in caller now), CreateAnalysis a])
          else create_handler method session name_in repo_in wid aid (Response c b) now s =
                 respond 201 (Created (new_workspace wid name_in repo_in caller now) None)
                   (s\<lparr>workspaces := (workspaces s)(wid \<mapsto> new_workspace wid name_in repo_in caller now)\<rparr>)
                   [analyzer_base @ ''/api/analyze'']
                   [CreateWorkspace (new_workspace wid name_in repo_in caller now)]) \<and>
         well_typed JNull \<and>
         new_analysis wid aid now JNull = Some (blank_analysis wid aid now)"
proof -
  let ?w = "new_workspace wid name_in repo_in caller now"
  let ?d = "case b of None \<Rightarrow> JNull | Some d \<Rightarrow> d"
  note v = create_valid [OF assms(1-3)]
  have 1: "create_handler method session name_in repo_in wid aid (Response c b) now s =
           create_handler method session name_in repo_in wid aid (Response c' b) now s"
    unfolding v by (rule start_analysis_code)
  have w: "workspace_id ?w = wid" by (simp add: new_workspace_def)
  have 2: "well_typed ?d \<Longrightarrow>
           \<exists>a. new_analysis wid aid now ?d = Some a \<and>
                  create_handler method session name_in repo_in wid aid (Response c b) now s =
                    respond 201 (Created ?w (Some (created a)))
                      (s\<lparr>workspaces := (workspaces s)(wid \<mapsto> ?w), analyses := (analyses s)(wid \<mapsto> a)\<rparr>)
                      [analyzer_base @ ''/api/analyze''] [CreateWorkspace ?w, CreateAnalysis a]"
  proof -
    assume t: "well_typed ?d"
    then obtain a where a: "new_analysis wid aid now ?d = Some a"
      using new_analysis_typed [of wid aid now ?d] by (auto simp: well_typed_def)
    then have n: "new_analysis (workspace_id ?w) aid now ?d = Some a" by (simp add: w)
    from t have f: "fits (CreateAnalysis a)"
      by (simp only: new_analysis_fits [OF a] well_typed_def)
    from start_analysis_record [OF n f, of _ "CreateWorkspace ?w" c] assms(4) a
    show ?thesis by (simp add: v w)
  qed
  have 3: "\<not> well_typed ?d \<Longrightarrow>
           create_handler method session name_in repo_in wid aid (Response c b) now s =
             respond 201 (Created ?w None) (s\<lparr>workspaces := (workspaces s)(wid \<mapsto> ?w)\<rparr>)
               [analyzer_base @ ''/api/analyze''] [CreateWorkspace ?w]"
  proof -
    assume t: "\<not> well_typed ?d"
    show ?thesis
    proof (cases "new_analysis wid aid now ?d")
      case None
      then have "new_analysis (workspace_id ?w) aid now ?d = None" by (simp add: w)
      from start_analysis_no_record [OF this] show ?thesis by (simp add: v)
    next
      case (Some a)
      then have n: "new_analysis (workspace_id ?w) aid now ?d = Some a" by (simp add: w)
      from Some have "new_analysis wid aid now ?d \<noteq> None" by simp
      then have "url_ok (opt_prop ''status_url'' ?d) \<and> url_ok (opt_prop ''result_url'' ?d) \<and>
                 text_ok (opt_prop ''workspace_id'' ?d) \<and> text_ok (opt_prop ''status'' ?d)"
        by (simp only: new_analysis_typed)
      with t have "\<not> fits (CreateAnalysis a)"
        by (simp only: new_analysis_fits [OF Some] well_typed_def simp_thms)
      from start_analysis_refused [OF n this] show ?thesis by (simp add: v)
    qed
  qed
  have 4: "well_typed JNull"
    by (simp add: well_typed_def url_ok_def text_ok_def)
  have 5: "new_analysis wid aid now JNull = Some (blank_analysis wid aid now)"
    by (simp add: new_analysis_def normalize_url_def create_external_id_def create_status_def
          blank_analysis_def)
  from 1 2 3 4 5 show ?thesis by simp
qed

theorem submit_reply_stored_whatever_its_code_witness:
  "create_handler ''POST'' (Some alice) (Some ''demo'') (Some ''https://github.com/x/y'') ''w1'' ''a1''
       (Response 500 None) 2 empty_store =
     respond 201 (Created ex_workspace (Some (created (blank_analysis ''w1'' ''a1'' 2))))
       \<lparr>workspaces = [''w1'' \<mapsto> ex_workspace], analyses = [''w1'' \<mapsto> blank_analysis ''w1'' ''a1'' 2]\<rparr>
       [''http://0.0.0.0:8000/api/analyze'']
       [CreateWorkspace ex_workspace, CreateAnalysis (blank_analysis ''w1'' ''a1'' 2)] \<and>
   status (blank_analysis ''w1'' ''a1'' 2) = ''pending'' \<and>
   external_workspace_id (blank_analysis ''w1'' ''a1'' 2) = None \<and>
   status_url (blank_analysis ''w1'' ''a1'' 2) = None \<and>
   result_url (blank_analysis ''w1'' ''a1'' 2) = None"
proof -
  have 2: "session_email (Some alice) = Some alice" by (simp add: alice_def)
  have 3: "workspaces empty_store ''w1'' = None" by (simp add: empty_store_def)
  have 4: "analyses empty_store ''w1'' = None" by (simp add: empty_store_def)
  note t = submit_reply_stored_whatever_its_code [OF ex_valid_create 2 3 4, of "''a1''" 500 None 2 500]
  from t have b: "new_analysis ''w1'' ''a1'' 2 JNull = Some (blank_analysis ''w1'' ''a1'' 2)"
    by blast
  from t have "well_typed JNull" by blast
  with t obtain a where a: "new_analysis ''w1'' ''a1'' 2 JNull = Some a \<and>
      create_handler ''POST'' (Some alice) (Some ''demo'') (Some ''https://github.com/x/y'') ''w1'' ''a1''
          (Response 500 None) 2 empty_store =
        respond 201
          (Created (new_workspace ''w1'' (Some ''demo'') (Some ''https://github.com/x/y'') alice 2)
             (Some (created a)))
          (empty_store\<lparr>workspaces := (workspaces empty_store)(''w1'' \<mapsto>
               new_workspace ''w1'' (Some ''demo'') (Some ''https://github.com/x/y'') alice 2),
             analyses := (analyses empty_store)(''w1'' \<mapsto> a)\<rparr>)
          [analyzer_base @ ''/api/analyze'']
          [CreateWorkspace (new_workspace ''w1'' (Some ''demo'') (Some ''https://github.com/x/y'') alice 2),
           CreateAnalysis a]"
    by auto
  from a b have "a = blank_analysis ''w1'' ''a1'' 2" by simp
  with a have "create_handler ''POST'' (Some alice) (Some ''demo'') (Some ''https://github.com/x/y'') ''w1'' ''a1''
          (Response 500 None) 2 empty_store =
        respond 201
          (Created (new_workspace ''w1'' (Some ''demo'') (Some ''https://github.com/x/y'') alice 2)
             (Some (created (blank_analysis ''w1'' ''a1'' 2))))
          (empty_store\<lparr>workspaces := (workspaces empty_store)(''w1'' \<mapsto>
               new_workspace ''w1'' (Some ''demo'') (Some ''https://github.com/x/y'') alice 2),
             analyses := (analyses empty_store)(''w1'' \<mapsto> blank_analysis ''w1'' ''a1'' 2)\<rparr>)
          [analyzer_base @ ''/api/analyze'']
          [CreateWorkspace (new_workspace ''w1'' (Some ''demo'') (Some ''https://github.com/x/y'') alice 2),
           CreateAnalysis (blank_analysis ''w1'' ''a1'' 2)]"
    by simp
  then have "create_handler ''POST'' (Some alice) (Some ''demo'') (Some ''https://github.com/x/y'') ''w1'' ''a1''
       (Response 500 None) 2 empty_store =
     respond 201 (Created ex_workspace (Some (created (blank_analysis ''w1'' ''a1'' 2))))
       \<lparr>workspaces = [''w1'' \<mapsto> ex_workspace], analyses = [''w1'' \<mapsto> blank_analysis ''w1'' ''a1'' 2]\<rparr>
       [''http://0.0.0.0:8000/api/analyze'']
       [CreateWorkspace ex_workspace, CreateAnalysis (blank_analysis ''w1'' ''a1'' 2)]"
    by (simp add: ex_new_workspace empty_store_def analyzer_base_def)
  then show ?thesis by (simp add: blank_analysis_def)
qed

text \<open>
  C10, as the claim states it, fails: the analyzer answers 200 with the JSON body
  \<open>{"status_url": 5}\<close>, nothing throws at the network level, and no analysis record is
  stored.
\<close>

theorem ill_typed_reply_leaves_no_record:
  "create_handler ''POST'' (Some alice) (Some ''demo'') (Some ''https://github.com/x/y'') ''w1'' ''a1''
       (Response 200 (Some (JObj [(''status_url'', JNum 5)]))) 2 empty_store =
     respond 201 (Created ex_workspace None)
       \<lparr>workspaces = [''w1'' \<mapsto> ex_workspace], analyses = Map.empty\<rparr>
       [''http://0.0.0.0:8000/api/analyze''] [CreateWorkspace ex_workspace] \<and>
   analyses (db (create_handler ''POST'' (Some alice) (Some ''demo'') (Some ''https://github.com/x/y'')
       ''w1'' ''a1'' (Response 200 (Some (JObj [(''status_url'', JNum 5)]))) 2 empty_store)) ''w1'' = None"
  by (simp add: create_handler_def start_analysis_def new_analysis_def normalize_url_def
        new_workspace_def ex_workspace_def alice_def trim_demo trim_repo has_nul_def
        startsWith_def empty_store_def analyzer_base_def respond_def Let_def)

section \<open>Properties of the polling loop\<close>

lemma tidy_clear:
  assumes "tidy s"
  shows "pollingRef (clear_polling s) = None" and "live (clear_polling s) = {}"
    and "tidy (clear_polling s)"
proof -
  show "pollingRef (clear_polling s) = None"
    using assms by (cases "pollingRef s") (simp_all add: tidy_def clear_polling_def)
  show "live (clear_polling s) = {}"
    using assms by (cases "pollingRef s") (simp_all add: tidy_def clear_polling_def)
  show "tidy (clear_polling s)"
    using assms by (cases "pollingRef s") (simp_all add: tidy_def clear_polling_def)
qed

lemma clear_polling_frame:
  "requests (clear_polling s) = requests s" and "next_timer (clear_polling s) = next_timer s"
  and "pending (clear_polling s) = pending s" and "finals (clear_polling s) = finals s"
  by (simp_all add: clear_polling_def split: option.splits)

lemma tidy_pollStatus: "tidy s \<Longrightarrow> tidy (pollStatus s)"
  by (cases "pollingRef s") (simp_all add: tidy_def pollStatus_def)

lemma tidy_poll_failed: "tidy s \<Longrightarrow> tidy (poll_failed s)"
  unfolding poll_failed_def by (rule tidy_clear(3)) (simp add: tidy_def)

lemma tidy_on_answer:
  assumes "tidy s"
  shows "tidy (on_answer a s)"
proof (cases a)
  case Throws
  with assms show ?thesis by (simp add: on_answer_def tidy_poll_failed)
next
  case (Replied c data)
  have 1: "tidy ((clear_polling (s\<lparr>error_shown := error_of data\<rparr>))\<lparr>loading := False\<rparr>)"
  proof -
    have "tidy (s\<lparr>error_shown := error_of data\<rparr>)" using assms by (simp add: tidy_def)
    then have "tidy (clear_polling (s\<lparr>error_shown := error_of data\<rparr>))" by (rule tidy_clear(3))
    then show ?thesis by (simp add: tidy_def)
  qed
  have 2: "tidy ((clear_polling s)\<lparr>loading := False\<rparr>)"
    using tidy_clear(3) [OF assms] by (simp add: tidy_def)
  have 3: "tidy ((clear_polling s)\<lparr>finals := Suc (finals s)\<rparr>)"
    using tidy_clear(3) [OF assms] by (simp add: tidy_def)
  from Replied assms 1 2 3 show ?thesis
    by (simp add: on_answer_def tidy_poll_failed)
qed

lemma tidy_fire:
  assumes "tidy s" and "fire e s = Some s'"
  shows "tidy s'"
proof (cases e)
  case PollStatus
  with assms(2) have "s' = pollStatus s" by simp
  with tidy_pollStatus [OF assms(1)] show ?thesis by simp
next
  case (Tick t)
  with assms(2) have "s' = s\<lparr>requests := Suc (requests s), pending := Suc (pending s)\<rparr>"
    by (simp split: if_splits)
  then have "next_timer s' = next_timer s \<and> pollingRef s' = pollingRef s \<and> live s' = live s"
    by simp
  with assms(1) show ?thesis by (simp add: tidy_def)
next
  case (Answer a)
  have "tidy (s\<lparr>pending := pending s - 1\<rparr>)" using assms(1) by (simp add: tidy_def)
  then have "tidy (on_answer a (s\<lparr>pending := pending s - 1\<rparr>))" by (rule tidy_on_answer)
  moreover from Answer assms(2) have "s' = on_answer a (s\<lparr>pending := pending s - 1\<rparr>)"
    by (simp split: if_splits)
  ultimately show ?thesis by simp
next
  case FinalAnswer
  with assms(2) have "s' = s\<lparr>finals := finals s - 1, loading := False\<rparr>"
    by (simp split: if_splits)
  then have "next_timer s' = next_timer s \<and> pollingRef s' = pollingRef s \<and> live s' = live s"
    by simp
  with assms(1) show ?thesis by (simp add: tidy_def)
next
  case Unmount
  with assms(2) have "s' = clear_polling s" by simp
  with tidy_clear(3) [OF assms(1)] show ?thesis by simp
qed

lemma run_Cons:
  "run (e # es) s = Some s' \<Longrightarrow> \<exists>s1. fire e s = Some s1 \<and> run es s1 = Some s'"
  by (cases "fire e s") simp_all

lemma tidy_run: "tidy s \<Longrightarrow> run es s = Some s' \<Longrightarrow> tidy s'"
proof (induction es arbitrary: s)
  case Nil
  then show ?case by simp
next
  case (Cons e es)
  from run_Cons [OF Cons.prems(2)] obtain s1 where 1: "fire e s = Some s1" and 2: "run es s1 = Some s'"
    by blast
  from tidy_fire [OF Cons.prems(1) 1] have "tidy s1" .
  from Cons.IH [OF this 2] show ?case .
qed

lemma tidy_mounted: "tidy mounted"
  by (simp add: tidy_def mounted_def)

text \<open>
  What the loop does on the signals that pass its tests: an answer that throws, a
  response that is not ok, a body \<open>null\<close>, the status \<open>completed\<close> or an analysis
  with a truthy result clears the interval and empties the ref, and so does the unmount;
  from a state without an interval no request of the status is issued until
  \<open>pollStatus\<close> is called again.
\<close>

lemma answer_stops_polling:
  assumes "tidy s"
    and "a = Throws \<or> (\<exists>c d. a = Replied c d \<and> (\<not> ok c \<or> d = JNull \<or> is_terminal d))"
  shows "pollingRef (on_answer a s) = None \<and> live (on_answer a s) = {}"
proof -
  have e: "\<And>v. tidy (s\<lparr>error_shown := v\<rparr>)" using assms(1) by (simp add: tidy_def)
  have f: "tidy (s\<lparr>error_shown := JStr ''Polling failed'', loading := False\<rparr>)"
    using assms(1) by (simp add: tidy_def)
  have p: "pollingRef (poll_failed s) = None \<and> live (poll_failed s) = {}"
    using tidy_clear(1,2) [OF f] by (simp add: poll_failed_def)
  show ?thesis
  proof (cases a)
    case Throws
    with p show ?thesis by (simp add: on_answer_def)
  next
    case (Replied c d)
    show ?thesis
    proof (cases "ok c")
      case False
      with Replied tidy_clear(1,2) [OF e [of "error_of d"]] show ?thesis
        by (simp add: on_answer_def)
    next
      case True
      show ?thesis
      proof (cases "d = JNull")
        case True
        with \<open>ok c\<close> Replied p show ?thesis by (simp add: on_answer_def)
      next
        case False
        with \<open>ok c\<close> Replied assms(2) have "is_terminal d" by simp
        with False \<open>ok c\<close> Replied tidy_clear(1,2) [OF assms(1)] show ?thesis
          by (simp add: on_answer_def)
      qed
    qed
  qed
qed

lemma unmount_stops_polling:
  assumes "tidy s"
  shows "fire Unmount s = Some (clear_polling s)" and "pollingRef (clear_polling s) = None"
    and "live (clear_polling s) = {}"
  using tidy_clear [OF assms] by simp_all

lemma clear_polling_live: "live s = {} \<Longrightarrow> live (clear_polling s) = {}"
  by (simp add: clear_polling_def split: option.splits)

lemma on_answer_quiet:
  assumes "live s = {}"
  shows "live (on_answer a s) = {}" and "requests (on_answer a s) = requests s"
proof -
  have 1: "\<And>x. live x = {} \<Longrightarrow> live (clear_polling x) = {}" by (rule clear_polling_live)
  show "live (on_answer a s) = {}"
    using assms by (cases a) (simp_all add: on_answer_def poll_failed_def 1)
  show "requests (on_answer a s) = requests s"
    by (cases a) (simp_all add: on_answer_def poll_failed_def clear_polling_frame(1))
qed

lemma fire_quiet:
  assumes "live s = {}" and "e \<noteq> PollStatus" and "fire e s = Some s'"
  shows "live s' = {} \<and> requests s' = requests s"
proof (cases e)
  case PollStatus
  with assms(2) show ?thesis by simp
next
  case (Tick t)
  with assms(1,3) show ?thesis by simp
next
  case (Answer a)
  with assms(3) have "s' = on_answer a (s\<lparr>pending := pending s - 1\<rparr>)"
    by (simp split: if_splits)
  moreover have "live (s\<lparr>pending := pending s - 1\<rparr>) = {}" using assms(1) by simp
  ultimately show ?thesis using on_answer_quiet [of "s\<lparr>pending := pending s - 1\<rparr>" a] by simp
next
  case FinalAnswer
  with assms(3) have "s' = s\<lparr>finals := finals s - 1, loading := False\<rparr>"
    by (simp split: if_splits)
  with assms(1) show ?thesis by simp
next
  case Unmount
  with assms(3) have "s' = clear_polling s" by simp
  with assms(1) show ?thesis by (simp add: clear_polling_live clear_polling_frame(1))
qed

lemma no_request_after_stop:
  assumes "live s = {}" and "PollStatus \<notin> set es" and "run es s = Some s'"
  shows "requests s' = requests s \<and> live s' = {}"
  using assms
proof (induction es arbitrary: s)
  case Nil
  then show ?case by simp
next
  case (Cons e es)
  from run_Cons [OF Cons.prems(3)] obtain s1 where 1: "fire e s = Some s1" and 2: "run es s1 = Some s'"
    by blast
  from Cons.prems(2) have 3: "e \<noteq> PollStatus" and 4: "PollStatus \<notin> set es" by auto
  from fire_quiet [OF Cons.prems(1) 3 1] have 5: "live s1 = {}" and 6: "requests s1 = requests s"
    by simp_all
  from Cons.IH [OF 5 4 2] 6 show ?case by simp
qed

text \<open>
  C9: after a response whose analysis carries a non-null result the loop clears its
  interval and issues no further status check. The loop tests the result for truthiness,
  so this fails for a result that is not \<open>null\<close> but falsy: after the reply with the
  status \<open>running\<close> and the result \<open>false\<close> the interval is still set and the ref
  still holds it, and the next tick issues the second request.
\<close>

theorem falsy_result_keeps_polling:
  "get_prop ''analysis'' ex_falsy_reply =
     Some (JObj [(''status'', JStr ''running''), (''result'', JBool False)]) \<and>
   run [PollStatus, Tick 1, Answer (Replied 200 ex_falsy_reply)] mounted =
     Some \<lparr>pollingRef = Some 1, live = {1}, next_timer = 2, requests = 1, pending = 0,
            finals = 0, loading = True, error_shown = JStr ''''\<rparr> \<and>
   run [PollStatus, Tick 1, Answer (Replied 200 ex_falsy_reply), Tick 1] mounted =
     Some \<lparr>pollingRef = Some 1, live = {1}, next_timer = 2, requests = 2, pending = 1,
            finals = 0, loading = True, error_shown = JStr ''''\<rparr>"
  by (simp add: mounted_def ex_falsy_reply_def pollStatus_def on_answer_def is_terminal_def
        carries_result_def ok_def)

end
